theory Spec2Isabelle
  imports Main "HOL-Library.Char_ord" "HOL-Library.List_Lexorder"
begin

section \<open>Strings, errors and the console\<close>

text \<open>
  The scripts handle JavaScript strings. They are modelled as \<^typ>\<open>string\<close>: a list of code
  units, here restricted to the code units below 256. Every character the scripts test for is
  ASCII, and the default \<open>sort\<close> of JavaScript compares code units, as the lexicographic order
  on \<^typ>\<open>char list\<close> does.
\<close>

abbreviation LF :: char where "LF \<equiv> CHR 0x0A"
abbreviation CR :: char where "CR \<equiv> CHR 0x0D"
abbreviation DQ :: char where "DQ \<equiv> CHR 0x22"
abbreviation BACKSLASH :: char where "BACKSLASH \<equiv> CHR 0x5C"
abbreviation BACKTICK :: char where "BACKTICK \<equiv> CHR 0x60"

text \<open>The line terminators of a regular expression (\<open>.\<close> excludes them; with the flag
  \<open>m\<close>, \<open>^\<close> matches after one and \<open>$\<close> before one).\<close>

definition isLineTerminator :: "char \<Rightarrow> bool" where
  "isLineTerminator c = (c = LF \<or> c = CR)"

definition isDigit :: "char \<Rightarrow> bool" where
  "isDigit c = (48 \<le> (of_char c :: nat) \<and> (of_char c :: nat) \<le> 57)"

text \<open>\<open>String.prototype.toLowerCase\<close> on the code units below 256.\<close>

definition toLowerCaseChar :: "char \<Rightarrow> char" where
  "toLowerCaseChar c =
     (let n = (of_char c :: nat) in
      if (65 \<le> n \<and> n \<le> 90) \<or> (192 \<le> n \<and> n \<le> 222 \<and> n \<noteq> 215)
      then char_of (n + 32) else c)"

definition toLowerCase :: "string \<Rightarrow> string" where
  "toLowerCase s = map toLowerCaseChar s"

definition endsWith :: "string \<Rightarrow> string \<Rightarrow> bool" where
  "endsWith suffix s = (length suffix \<le> length s \<and> drop (length s - length suffix) s = suffix)"

text \<open>\<open>s.replace(/suffix$/, '')\<close> for a literal suffix.\<close>

definition removeSuffix :: "string \<Rightarrow> string \<Rightarrow> string" where
  "removeSuffix suffix s = (if endsWith suffix s then take (length s - length suffix) s else s)"

text \<open>\<open>s.replace(pat, rep)\<close> for a string pattern: the first occurrence only.\<close>

fun replaceFirst :: "string \<Rightarrow> string \<Rightarrow> string \<Rightarrow> string" where
  "replaceFirst pat rep [] = (if pat = [] then rep else [])"
| "replaceFirst pat rep (x # xs) =
     (if take (length pat) (x # xs) = pat then rep @ drop (length pat) (x # xs)
      else x # replaceFirst pat rep xs)"

text \<open>A global replacement of single characters by one character.\<close>

definition replaceAllChar :: "(char \<Rightarrow> bool) \<Rightarrow> char \<Rightarrow> string \<Rightarrow> string" where
  "replaceAllChar P r s = map (\<lambda>c. if P c then r else c) s"

fun splitOn :: "char \<Rightarrow> string \<Rightarrow> string list" where
  "splitOn sep [] = [[]]"
| "splitOn sep (x # xs) =
     (if x = sep then [] # splitOn sep xs
      else (case splitOn sep xs of [] \<Rightarrow> [[x]] | l # ls \<Rightarrow> (x # l) # ls))"

text \<open>\<open>Array.prototype.join\<close>.\<close>

fun joinWith :: "string \<Rightarrow> string list \<Rightarrow> string" where
  "joinWith sep [] = []"
| "joinWith sep [x] = x"
| "joinWith sep (x # y # ys) = x @ sep @ joinWith sep (y # ys)"

text \<open>A number in a template literal.\<close>

fun showNat :: "nat \<Rightarrow> string" where
  "showNat n =
     (if n < 10 then [char_of (48 + n)]
      else showNat (n div 10) @ [char_of (48 + n mod 10)])"

declare showNat.simps [simp del]

definition showInt :: "int \<Rightarrow> string" where
  "showInt i = (if i < 0 then ''-'' @ showNat (nat (- i)) else showNat (nat i))"

text \<open>
  What the scripts can throw. \<open>Error\<close> is \<open>new Error(message)\<close> (and an error rethrown with
  its message); \<open>ENOENT\<close> and \<open>EISDIR\<close> are the errors of \<open>node:fs\<close>; \<open>TypeError\<close> is a property
  read on \<open>undefined\<close>. \<open>OutsideModel\<close> is no JavaScript error: it marks an input that the
  model of the file system does not cover.
\<close>

datatype error =
    Error string
  | ENOENT string
  | EISDIR
  | TypeError string
  | OutsideModel string

fun errorMessage :: "error \<Rightarrow> string" where
  "errorMessage (Error m) = m"
| "errorMessage (ENOENT p) =
     ''ENOENT: no such file or directory, open '' @ [CHR 0x27] @ p @ [CHR 0x27]"
| "errorMessage EISDIR = ''EISDIR: illegal operation on a directory, read''"
| "errorMessage (TypeError m) = m"
| "errorMessage (OutsideModel n) = []"

text \<open>What \<open>console.error(e.message || e)\<close> prints: the message, or the error itself when
  the message is empty.\<close>

datatype logged = Text string | Obj error

definition messageOrError :: "error \<Rightarrow> logged" where
  "messageOrError e = (if errorMessage e \<noteq> [] then Text (errorMessage e) else Obj e)"

section \<open>Paths\<close>

text \<open>\<open>path.normalize\<close>, \<open>path.join\<close> and \<open>path.resolve\<close> of Node for POSIX paths;
  \<open>pathResolve\<close> is given an absolute first path. The segments kept so far are held in
  reverse.\<close>

fun normalizeSegments :: "bool \<Rightarrow> string list \<Rightarrow> string list \<Rightarrow> string list" where
  "normalizeSegments allowAboveRoot kept [] = rev kept"
| "normalizeSegments allowAboveRoot kept (seg # segs) =
     (if seg = [] \<or> seg = ''.'' then normalizeSegments allowAboveRoot kept segs
      else if seg = ''..'' then
        (case kept of
           [] \<Rightarrow> normalizeSegments allowAboveRoot (if allowAboveRoot then [''..''] else []) segs
         | k # ks \<Rightarrow>
             if k = ''..'' then normalizeSegments allowAboveRoot (''..'' # kept) segs
             else normalizeSegments allowAboveRoot ks segs)
      else normalizeSegments allowAboveRoot (seg # kept) segs)"

definition pathNormalize :: "string \<Rightarrow> string" where
  "pathNormalize p =
     (if p = [] then ''.''
      else
        let isAbsolute = (hd p = CHR ''/'');
            trailingSeparator = (last p = CHR ''/'');
            body = joinWith ''/'' (normalizeSegments (\<not> isAbsolute) [] (splitOn (CHR ''/'') p))
        in if body = []
           then (if isAbsolute then ''/'' else if trailingSeparator then ''./'' else ''.'')
           else (if isAbsolute then ''/'' else []) @ body @
                (if trailingSeparator then ''/'' else []))"

definition pathJoin :: "string list \<Rightarrow> string" where
  "pathJoin args =
     (case filter (\<lambda>a. a \<noteq> []) args of
        [] \<Rightarrow> ''.''
      | _ \<Rightarrow> pathNormalize (joinWith ''/'' (filter (\<lambda>a. a \<noteq> []) args)))"

definition pathResolve :: "string \<Rightarrow> string \<Rightarrow> string" where
  "pathResolve dir rel =
     ''/'' @ joinWith ''/'' (normalizeSegments False [] (splitOn (CHR ''/'') (dir @ ''/'' @ rel)))"

section \<open>The file system\<close>

text \<open>
  A directory is the list of its entries, in the order \<open>readdirSync\<close> lists them; an entry is
  a file with its text or a directory. Symbolic links are not modelled, and no operation is
  refused for lack of permission or space.
\<close>

datatype entry = File string | Dir "(string \<times> entry) list"

definition readFileSync :: "(string \<times> entry) list \<Rightarrow> string \<Rightarrow> error + string" where
  "readFileSync es name =
     (case map_of es name of
        None \<Rightarrow> Inl (ENOENT name)
      | Some (File content) \<Rightarrow> Inr content
      | Some (Dir sub) \<Rightarrow> Inl EISDIR)"

fun writeEntry :: "string \<Rightarrow> string \<Rightarrow> (string \<times> entry) list \<Rightarrow> error + (string \<times> entry) list" where
  "writeEntry name content [] = Inr [(name, File content)]"
| "writeEntry name content ((n, e) # es) =
     (if n = name
      then (case e of File old \<Rightarrow> Inr ((n, File content) # es) | Dir sub \<Rightarrow> Inl EISDIR)
      else (case writeEntry name content es of
              Inl err \<Rightarrow> Inl err
            | Inr es' \<Rightarrow> Inr ((n, e) # es')))"

text \<open>
  The state of a run: the output directory of the script (\<open>None\<close> when it does not exist),
  the paths of the files that exist outside it, the two console streams, and the names the
  script itself has written in the output directory with \<open>writeFileSync\<close>.
\<close>

record proc =
  outDirTree :: "(string \<times> entry) list option"
  files :: "string list"
  stdout :: "string list"
  stderr :: "logged list"
  written :: "string list"

definition consoleLog :: "string \<Rightarrow> proc \<Rightarrow> proc" where
  "consoleLog line p = p\<lparr>stdout := stdout p @ [line]\<rparr>"

definition consoleError :: "error \<Rightarrow> proc \<Rightarrow> proc" where
  "consoleError e p = p\<lparr>stderr := stderr p @ [messageOrError e]\<rparr>"

text \<open>\<open>if (fs.existsSync(outDir)) fs.rmSync(outDir, ...); fs.mkdirSync(outDir, ...)\<close>.\<close>

definition resetOutDir :: "proc \<Rightarrow> proc" where
  "resetOutDir p = p\<lparr>outDirTree := Some []\<rparr>"

definition readOutFile :: "string \<Rightarrow> string \<Rightarrow> proc \<Rightarrow> error + string" where
  "readOutFile outDir name p =
     (case outDirTree p of
        None \<Rightarrow> Inl (ENOENT (pathJoin [outDir, name]))
      | Some es \<Rightarrow>
          (case readFileSync es name of
             Inl (ENOENT n) \<Rightarrow> Inl (ENOENT (pathJoin [outDir, name]))
           | Inl e \<Rightarrow> Inl e
           | Inr content \<Rightarrow> Inr content))"

definition writeOutFile :: "string \<Rightarrow> string \<Rightarrow> string \<Rightarrow> proc \<Rightarrow> (error + unit) \<times> proc" where
  "writeOutFile outDir name content p =
     (case outDirTree p of
        None \<Rightarrow> (Inl (ENOENT (pathJoin [outDir, name])), p)
      | Some es \<Rightarrow>
          (case writeEntry name content es of
             Inl e \<Rightarrow> (Inl e, p)
           | Inr es' \<Rightarrow> (Inr (), p\<lparr>outDirTree := Some es', written := written p @ [name]\<rparr>)))"

section \<open>The Markdown post-processor\<close>

text \<open>
  \<open>processMarkdown\<close> applies three global replacements, one after the other:
  \<^verbatim>\<open>md.replace(/(?<=\|[^|]*);(?=[^|]*\|)/g, '&semi;')\<close> and the same for the two braces.
  The look-behind \<open>(?<=\|[^|]*)\<close> holds at a position when, reading backwards over characters
  other than the bar, a bar is reached; the look-ahead \<open>(?=[^|]*\|)\<close> is its mirror image.
  The class \<open>[^|]\<close> contains the line terminators.
\<close>

definition lookbehindPipe :: "string \<Rightarrow> bool" where
  "lookbehindPipe pre = (dropWhile (\<lambda>x. x \<noteq> CHR ''|'') (rev pre) \<noteq> [])"

definition lookaheadPipe :: "string \<Rightarrow> bool" where
  "lookaheadPipe rest = (dropWhile (\<lambda>x. x \<noteq> CHR ''|'') rest \<noteq> [])"

text \<open>One global replacement of the character \<open>c\<close> by \<open>rep\<close>; \<open>pre\<close> is the input already
  passed (the look-behind reads the input, not the output).\<close>

fun replaceInCells :: "char \<Rightarrow> string \<Rightarrow> string \<Rightarrow> string \<Rightarrow> string" where
  "replaceInCells c rep pre [] = []"
| "replaceInCells c rep pre (x # xs) =
     (if x = c \<and> lookbehindPipe pre \<and> lookaheadPipe xs
      then rep @ replaceInCells c rep (pre @ [x]) xs
      else x # replaceInCells c rep (pre @ [x]) xs)"

definition escapeTableChars :: "string \<Rightarrow> string" where
  "escapeTableChars md =
     replaceInCells (CHR ''}'') ''&rbrace;'' []
       (replaceInCells (CHR ''{'') ''&lbrace;'' []
         (replaceInCells (CHR '';'') ''&semi;'' [] md))"

text \<open>The YAML front matter, a template literal of six lines, each ended by a line feed.\<close>

definition frontMatter :: string where
  "frontMatter =
     ''---'' @ [LF] @
     ''editLink: false'' @ [LF] @
     ''prev: false'' @ [LF] @
     ''next: false'' @ [LF] @
     ''outline: false'' @ [LF] @
     ''---'' @ [LF]"

definition processMarkdown :: "string \<Rightarrow> string" where
  "processMarkdown md = frontMatter @ escapeTableChars md"

subsection \<open>The words of the specification\<close>

text \<open>The named character reference of a character.\<close>

definition entity :: "char \<Rightarrow> string" where
  "entity x =
     (if x = CHR '';'' then ''&semi;''
      else if x = CHR ''{'' then ''&lbrace;''
      else if x = CHR ''}'' then ''&rbrace;''
      else [x])"

text \<open>The input in three parts: the text before its first bar, the text from the first bar
  to the last bar (both included), and the text after the last bar.\<close>

definition beforeFirstPipe :: "string \<Rightarrow> string" where
  "beforeFirstPipe md = takeWhile (\<lambda>x. x \<noteq> CHR ''|'') md"

definition fromFirstPipe :: "string \<Rightarrow> string" where
  "fromFirstPipe md = dropWhile (\<lambda>x. x \<noteq> CHR ''|'') md"

definition betweenPipes :: "string \<Rightarrow> string" where
  "betweenPipes md = rev (dropWhile (\<lambda>x. x \<noteq> CHR ''|'') (rev (fromFirstPipe md)))"

definition afterLastPipe :: "string \<Rightarrow> string" where
  "afterLastPipe md = rev (takeWhile (\<lambda>x. x \<noteq> CHR ''|'') (rev (fromFirstPipe md)))"

text \<open>The lines of a text, as \<open>text.split('\n')\<close> gives them.\<close>

fun splitLines :: "string \<Rightarrow> string list" where
  "splitLines [] = [[]]"
| "splitLines (x # xs) =
     (if x = LF then [] # splitLines xs
      else (case splitLines xs of [] \<Rightarrow> [[x]] | l # ls \<Rightarrow> (x # l) # ls))"

text \<open>The lines of the front matter block, and the keys it sets.\<close>

definition frontMatterLines :: "string list" where
  "frontMatterLines = butlast (splitLines frontMatter)"

definition frontMatterKeys :: "string list" where
  "frontMatterKeys =
     map (takeWhile (\<lambda>x. x \<noteq> CHR '':'')) (filter (\<lambda>l. CHR '':'' \<in> set l) frontMatterLines)"


text \<open>
  \<open>processMarkdownFiles\<close>: every file of the tree whose name ends in \<open>.md\<close> is rewritten by
  \<open>processMarkdown\<close>; a directory of such a name makes \<open>readFileSync\<close> raise. The files
  rewritten before a failure are not tracked: a failed pass gives the error alone.
\<close>

fun processMarkdownEntries :: "(string \<times> entry) list \<Rightarrow> error + (string \<times> entry) list" where
  "processMarkdownEntries [] = Inr []"
| "processMarkdownEntries ((name, File content) # rest) =
     (case processMarkdownEntries rest of
        Inl e \<Rightarrow> Inl e
      | Inr rest' \<Rightarrow>
          Inr ((name, File (if endsWith ''.md'' name then processMarkdown content else content))
               # rest'))"
| "processMarkdownEntries ((name, Dir sub) # rest) =
     (if endsWith ''.md'' name then Inl EISDIR
      else (case processMarkdownEntries sub of
              Inl e \<Rightarrow> Inl e
            | Inr sub' \<Rightarrow>
                (case processMarkdownEntries rest of
                   Inl e \<Rightarrow> Inl e
                 | Inr rest' \<Rightarrow> Inr ((name, Dir sub') # rest'))))"

definition processMarkdownFiles :: "string \<Rightarrow> proc \<Rightarrow> (error + unit) \<times> proc" where
  "processMarkdownFiles outDir p =
     (case outDirTree p of
        None \<Rightarrow> (Inl (ENOENT outDir), p)
      | Some es \<Rightarrow>
          (case processMarkdownEntries es of
             Inl e \<Rightarrow> (Inl e, p)
           | Inr es' \<Rightarrow> (Inr (), p\<lparr>outDirTree := Some es'\<rparr>)))"

section \<open>The navigation tree\<close>

datatype navitem =
  NavItem (nav_text: string) (nav_link: string) (nav_items: "navitem list option")
    (nav_collapsed: "bool option")

text \<open>A \<open>forEach\<close> whose callback pushes items or throws: the items pushed, in order, or the
  first error.\<close>

fun forEachE :: "('a \<Rightarrow> error + 'b list) \<Rightarrow> 'a list \<Rightarrow> error + 'b list" where
  "forEachE f [] = Inr []"
| "forEachE f (x # xs) =
     (case f x of
        Inl e \<Rightarrow> Inl e
      | Inr ys \<Rightarrow> (case forEachE f xs of Inl e \<Rightarrow> Inl e | Inr zs \<Rightarrow> Inr (ys @ zs)))"

text \<open>
  \<open>[...markdown.matchAll(new RegExp(`^${headerPrefix} (.*)$`, 'gm'))].map((m) => m[1])\<close>:
  at the start of a line, the prefix and a space; the header is the rest of the line, and the
  search goes on behind it.
\<close>

function matchHeaders :: "string \<Rightarrow> bool \<Rightarrow> string \<Rightarrow> string list" where
  "matchHeaders headerPrefix atStart [] = []"
| "matchHeaders headerPrefix atStart (c # cs) =
     (let p = headerPrefix @ '' '' in
      if atStart \<and> take (length p) (c # cs) = p
      then takeWhile (\<lambda>x. \<not> isLineTerminator x) (drop (length p) (c # cs)) #
           matchHeaders headerPrefix False
             (dropWhile (\<lambda>x. \<not> isLineTerminator x) (drop (length p) (c # cs)))
      else matchHeaders headerPrefix (isLineTerminator c) cs)"
  by pat_completeness auto
termination
proof (relation "measure (\<lambda>(p, a, s). length s)")
  show "wf (measure (\<lambda>(p, a, s). length s))" by simp
next
  fix headerPrefix :: string and atStart :: bool and c :: char and cs p :: string
  assume p: "p = headerPrefix @ '' ''"
  have "length (dropWhile (\<lambda>x. \<not> isLineTerminator x) (drop (length p) (c # cs)))
          \<le> length (drop (length p) (c # cs))"
    by (rule length_dropWhile_le)
  also have "\<dots> < length (c # cs)" using p by simp
  finally show "((headerPrefix, False,
           dropWhile (\<lambda>x. \<not> isLineTerminator x) (drop (length p) (c # cs))),
          headerPrefix, atStart, c # cs) \<in> measure (\<lambda>(p, a, s). length s)"
    by simp
next
  fix headerPrefix :: string and atStart :: bool and c :: char and cs :: string
  show "((headerPrefix, isLineTerminator c, cs), headerPrefix, atStart, c # cs)
          \<in> measure (\<lambda>(p, a, s). length s)"
    by simp
qed

definition getMarkdownFileHeaders ::
  "(string \<times> entry) list \<Rightarrow> string \<Rightarrow> string \<Rightarrow> error + string list" where
  "getMarkdownFileHeaders es file headerPrefix =
     (case readFileSync es file of
        Inl e \<Rightarrow> Inl e
      | Inr markdown \<Rightarrow> Inr (matchHeaders headerPrefix True markdown))"

text \<open>
  The regular expression \<open>/ \(\d.*\)$/\<close>: a space, an opening parenthesis, a digit, then
  anything but a line terminator up to a closing parenthesis that ends the string.
  \<open>overloadSuffixAt\<close> is a match that begins at the start of the string; \<open>test\<close> looks for a
  match at any position and \<open>replace\<close> cuts the leftmost one.
\<close>

definition overloadSuffixAt :: "string \<Rightarrow> bool" where
  "overloadSuffixAt s =
     (case s of
        a # b # d # rest \<Rightarrow>
          a = CHR '' '' \<and> b = CHR ''('' \<and> isDigit d \<and> rest \<noteq> [] \<and> last rest = CHR '')'' \<and>
          list_all (\<lambda>x. \<not> isLineTerminator x) (butlast rest)
      | _ \<Rightarrow> False)"

fun testOverloadSuffix :: "string \<Rightarrow> bool" where
  "testOverloadSuffix [] = False"
| "testOverloadSuffix (x # xs) = (overloadSuffixAt (x # xs) \<or> testOverloadSuffix xs)"

fun removeOverloadSuffix :: "string \<Rightarrow> string" where
  "removeOverloadSuffix [] = []"
| "removeOverloadSuffix (x # xs) =
     (if overloadSuffixAt (x # xs) then [] else x # removeOverloadSuffix xs)"

text \<open>
  \<open>if (/ \(\d.*\)$/.test(headers[0])) headers = [headers[0].replace(/ \(\d.*\)$/, '')]\<close>.
  With no header, \<open>headers[0]\<close> is \<open>undefined\<close>, which \<open>test\<close> reads as the text
  \<open>undefined\<close>: no match.
\<close>

definition mergeOverloads :: "string list \<Rightarrow> string list" where
  "mergeOverloads headers =
     (case headers of
        [] \<Rightarrow> []
      | h # hs \<Rightarrow> if testOverloadSuffix h then [removeOverloadSuffix h] else headers)"

definition referencePath :: string where
  "referencePath = ''/reference/dotnet/''"

text \<open>\<open>subDir\<close> is \<open>undefined\<close> at the root: \<open>subDir ? a : b\<close> and \<open>subDir ?? ''\<close>.\<close>

definition truthy :: "string option \<Rightarrow> bool" where
  "truthy s = (case s of None \<Rightarrow> False | Some v \<Rightarrow> v \<noteq> [])"

definition orEmpty :: "string option \<Rightarrow> string" where
  "orEmpty s = (case s of None \<Rightarrow> [] | Some v \<Rightarrow> v)"

definition navLink :: "string option \<Rightarrow> string \<Rightarrow> string \<Rightarrow> string" where
  "navLink subDir file header =
     (if endsWith '' namespace'' header
      then referencePath @ ''#'' @
           toLowerCase (replaceAllChar (\<lambda>c. c = CHR ''.'' \<or> c = CHR '' '') (CHR ''-'') header)
      else replaceAllChar (\<lambda>c. c = BACKSLASH) (CHR ''/'')
             (pathJoin [referencePath, orEmpty subDir, file]))"

definition navText :: "string \<Rightarrow> string" where
  "navText header = replaceFirst ''structure'' ''struct'' (removeSuffix '' namespace'' header)"

text \<open>The names of the Markdown files of a directory without their extension, sorted.\<close>

definition markdownStems :: "(string \<times> entry) list \<Rightarrow> string list" where
  "markdownStems es =
     sort (map (\<lambda>f. take (length f - 3) f) (filter (endsWith ''.md'') (map fst es)))"

text \<open>
  \<open>path.join(currentDir, file)\<close> names an entry of the current directory when \<open>file\<close> is the
  name of a child. For the files \<open>.md\<close>, \<open>..md\<close> and \<open>...md\<close> it names the directory itself
  or its parent, which this model of the tree does not follow.
\<close>

definition isChildName :: "string \<Rightarrow> bool" where
  "isChildName file =
     (file \<noteq> [] \<and> file \<noteq> ''.'' \<and> file \<noteq> ''..'' \<and> CHR ''/'' \<notin> set file)"

lemma map_of_Dir_size:
  "map_of es k = Some (Dir sub) \<Longrightarrow>
   size_list (size_prod (\<lambda>x. 0) size) sub < size_list (size_prod (\<lambda>x. 0) size) es"
  by (induction es) (auto split: if_splits)

text \<open>
  \<open>generateNavigationTree(rootDir, subDir)\<close>; the directory \<open>path.join(rootDir, subDir)\<close> is
  given by its entries \<open>es\<close>.
\<close>

function generateNavigationTree ::
  "(string \<times> entry) list \<Rightarrow> string option \<Rightarrow> error + navitem list" where
  "generateNavigationTree es subDir =
     forEachE
       (\<lambda>file.
          case getMarkdownFileHeaders es (file @ ''.md'') (if truthy subDir then ''#'' else ''##'') of
            Inl e \<Rightarrow> Inl e
          | Inr headers \<Rightarrow>
              forEachE
                (\<lambda>header.
                   case (if \<not> isChildName file then Inl (OutsideModel file)
                         else (case map_of es file of
                                 Some (Dir sub) \<Rightarrow>
                                   (case generateNavigationTree sub
                                           (Some (pathJoin [orEmpty subDir, file])) of
                                      Inl e \<Rightarrow> Inl e
                                    | Inr subItems \<Rightarrow> Inr (Some subItems))
                               | _ \<Rightarrow> Inr None)) of
                     Inl e \<Rightarrow> Inl e
                   | Inr subItems \<Rightarrow>
                       Inr [NavItem (navText header) (navLink subDir file header) subItems
                              (if subItems \<noteq> None then Some True else None)])
                (mergeOverloads headers))
       (markdownStems es)"
  by pat_completeness auto
termination
  by (relation "measure (\<lambda>(es, s). size_list (size_prod (\<lambda>x. 0) size) es)")
     (auto simp: map_of_Dir_size)

declare generateNavigationTree.simps [simp del]

text \<open>
  The parts of the two callbacks by name: the sub-items found for a file (the recursion into
  the directory of its name), the item made for a header, and the items that one Markdown
  file of a directory contributes (the body of the outer \<open>forEach\<close>).
\<close>

definition fileSubItems ::
  "(string \<times> entry) list \<Rightarrow> string option \<Rightarrow> string \<Rightarrow> error + navitem list option" where
  "fileSubItems es subDir file =
     (if \<not> isChildName file then Inl (OutsideModel file)
      else (case map_of es file of
              Some (Dir sub) \<Rightarrow>
                (case generateNavigationTree sub (Some (pathJoin [orEmpty subDir, file])) of
                   Inl e \<Rightarrow> Inl e
                 | Inr subItems \<Rightarrow> Inr (Some subItems))
            | _ \<Rightarrow> Inr None))"

definition navItemOf :: "string option \<Rightarrow> string \<Rightarrow> string \<Rightarrow> navitem list option \<Rightarrow> navitem" where
  "navItemOf subDir file header subItems =
     NavItem (navText header) (navLink subDir file header) subItems
       (if subItems \<noteq> None then Some True else None)"

definition fileNavItems ::
  "(string \<times> entry) list \<Rightarrow> string option \<Rightarrow> string \<Rightarrow> error + navitem list" where
  "fileNavItems es subDir file =
     (case getMarkdownFileHeaders es (file @ ''.md'') (if truthy subDir then ''#'' else ''##'') of
        Inl e \<Rightarrow> Inl e
      | Inr headers \<Rightarrow>
          forEachE
            (\<lambda>header.
               case fileSubItems es subDir file of
                 Inl e \<Rightarrow> Inl e
               | Inr subItems \<Rightarrow> Inr [navItemOf subDir file header subItems])
            (mergeOverloads headers))"

text \<open>The invariant of an item, at every depth: \<open>collapsed\<close> is \<open>true\<close> when \<open>items\<close> is
  present and absent when \<open>items\<close> is absent.\<close>

fun collapsedMatchesItems :: "navitem \<Rightarrow> bool" where
  "collapsedMatchesItems (NavItem t l None c) = (c = None)"
| "collapsedMatchesItems (NavItem t l (Some its) c) =
     (c = Some True \<and> list_all collapsedMatchesItems its)"

section \<open>The .NET documentation script\<close>

text \<open>What the script is given by its surroundings: its own directory \<open>__dirname\<close> (an
  absolute path), \<open>process.platform\<close> and \<open>process.arch\<close>.\<close>

record env =
  dirname :: string
  platform :: string
  arch :: string

definition assemblyNamePrefix :: string where
  "assemblyNamePrefix = ''Microsoft.JavaScript.''"

definition docsTargetFramework :: string where
  "docsTargetFramework = ''net6.0''"

definition docsConfiguration :: string where
  "docsConfiguration = ''Release''"

definition ridPlatform :: "env \<Rightarrow> string" where
  "ridPlatform ev =
     (if platform ev = ''win32'' then ''win''
      else if platform ev = ''darwin'' then ''osx''
      else platform ev)"

definition ridArch :: "env \<Rightarrow> string" where
  "ridArch ev = (if arch ev = ''ia32'' then ''x86'' else arch ev)"

definition rid :: "env \<Rightarrow> string" where
  "rid ev = ridPlatform ev @ ''-'' @ ridArch ev"

definition rootDir :: "env \<Rightarrow> string" where
  "rootDir ev = pathResolve (dirname ev) ''../..''"

definition srcDir :: "env \<Rightarrow> string" where
  "srcDir ev = pathJoin [rootDir ev, ''src'']"

definition binDir :: "env \<Rightarrow> string" where
  "binDir ev = pathJoin [rootDir ev, ''out'', ''bin'']"

definition outDir :: "env \<Rightarrow> string" where
  "outDir ev = pathResolve (dirname ev) ''../reference/dotnet''"

record project =
  proj_name :: string
  proj_references :: "string list option"

definition projectList :: "project list" where
  "projectList =
     [\<lparr>proj_name = ''NodeApi'', proj_references = None\<rparr>,
      \<lparr>proj_name = ''NodeApi.DotNetHost'', proj_references = Some [''NodeApi'']\<rparr>]"

text \<open>
  \<open>childProcess.execSync\<close> runs an external command, which changes the file system as it
  likes; it returns, or throws an error that has a message and, when the command has exited,
  its status. What the command prints is not modelled.
\<close>

datatype execOutcome = Completed | Failed "nat option" string

type_synonym execSync =
  "string \<Rightarrow> (string \<times> entry) list option \<times> string list \<Rightarrow>
   execOutcome \<times> (string \<times> entry) list option \<times> string list"

definition exec :: "execSync \<Rightarrow> string \<Rightarrow> proc \<Rightarrow> (error + unit) \<times> proc" where
  "exec execSync cmd p =
     (let p1 = consoleLog cmd p in
      case execSync cmd (outDirTree p1, files p1) of
        (outcome, tree, fs) \<Rightarrow>
          (let p2 = p1\<lparr>outDirTree := tree, files := fs\<rparr> in
           case outcome of
             Completed \<Rightarrow> (Inr (), p2)
           | Failed status message \<Rightarrow>
               (case status of
                  None \<Rightarrow> (Inl (Error message), p2)
                | Some n \<Rightarrow>
                    if n \<noteq> 0
                    then (Inl (Error (''Command executed with status: '' @ showNat n)), p2)
                    else (Inl (Error message), p2))))"

definition buildProjectXmldocs ::
  "execSync \<Rightarrow> env \<Rightarrow> string \<Rightarrow> string \<Rightarrow> proc \<Rightarrow> (error + string) \<times> proc" where
  "buildProjectXmldocs execSync ev projectName assemblyName p =
     (let projectDir = pathJoin [srcDir ev, projectName];
          p1 = consoleLog (''Building project: '' @ projectDir) p
      in case exec execSync
                (''dotnet build '' @ [DQ] @ projectDir @ [DQ] @ '' -c '' @ docsConfiguration @ '' '' @
                 ''-f '' @ docsTargetFramework @
                 '' -p:GenerateDocumentationFile=true -p:NoWarn=CS1591 -t:Rebuild'') p1 of
           (Inl e, p2) \<Rightarrow> (Inl e, p2)
         | (Inr u, p2) \<Rightarrow>
             (let projectBinDir =
                    pathJoin [binDir ev, docsConfiguration, projectName, docsTargetFramework, rid ev];
                  assemblyFilePath = pathJoin [projectBinDir, assemblyName @ ''.dll''];
                  xmldocFilePath = pathJoin [projectBinDir, assemblyName @ ''.xml'']
              in if assemblyFilePath \<notin> set (files p2)
                 then (Inl (Error (''Assembly file was not found at '' @ assemblyFilePath)), p2)
                 else if xmldocFilePath \<notin> set (files p2)
                 then (Inl (Error (''XML doc file was not found at '' @ xmldocFilePath)), p2)
                 else (Inr assemblyFilePath, p2)))"

definition buildProjectMarkdownDocs ::
  "execSync \<Rightarrow> env \<Rightarrow> string \<Rightarrow> string list option \<Rightarrow> proc \<Rightarrow> (error + string) \<times> proc" where
  "buildProjectMarkdownDocs execSync ev projectName projectReferences p =
     (let assemblyName = assemblyNamePrefix @ projectName in
      case buildProjectXmldocs execSync ev projectName assemblyName p of
        (Inl e, p1) \<Rightarrow> (Inl e, p1)
      | (Inr assemblyFilePath, p1) \<Rightarrow>
          (let assemblyReferences =
                 map (\<lambda>r. assemblyNamePrefix @ r)
                   (case projectReferences of None \<Rightarrow> [] | Some rs \<Rightarrow> rs);
               p2 = consoleLog (''Generating markdown: '' @ assemblyName) p1;
               xmlDocMdRunCommand =
                 ''dotnet run -c Release -f '' @ docsTargetFramework @ '' --project '' @
                 dirname ev @ '' --''
           in case exec execSync
                     (xmlDocMdRunCommand @ '' '' @ [DQ] @ assemblyFilePath @ [DQ] @ '' '' @
                      [DQ] @ outDir ev @ [DQ] @ '' --obsolete '' @
                      ''--source '' @ [DQ] @
                      ''https://github.com/microsoft/node-api-dotnet/tree/main/src/'' @
                      projectName @ [DQ] @
                      joinWith [] (map (\<lambda>r. '' --external '' @ [DQ] @ r @ [DQ]) assemblyReferences))
                     p2 of
                (Inl e, p3) \<Rightarrow> (Inl e, p3)
              | (Inr u, p3) \<Rightarrow>
                  (case readOutFile (outDir ev) (assemblyName @ ''.md'') p3 of
                     Inl e \<Rightarrow> (Inl e, p3)
                   | Inr assemblyMarkdown \<Rightarrow> (Inr assemblyMarkdown, p3))))"

text \<open>The loop \<open>for (let project of projectList) indexMarkdown += ...\<close>.\<close>

fun buildProjects ::
  "execSync \<Rightarrow> env \<Rightarrow> project list \<Rightarrow> string \<Rightarrow> proc \<Rightarrow> (error + string) \<times> proc" where
  "buildProjects execSync ev [] indexMarkdown p = (Inr indexMarkdown, p)"
| "buildProjects execSync ev (pr # projects) indexMarkdown p =
     (case buildProjectMarkdownDocs execSync ev (proj_name pr) (proj_references pr) p of
        (Inl e, p1) \<Rightarrow> (Inl e, p1)
      | (Inr md, p1) \<Rightarrow> buildProjects execSync ev projects (indexMarkdown @ md) p1)"

text \<open>
  \<open>indexMarkdown.replace(/^# .*$/gm, '')\<close>: at the start of a line, a hash and a space; the
  match runs to the end of the line and is cut.
\<close>

function removeAssemblyHeaders :: "bool \<Rightarrow> string \<Rightarrow> string" where
  "removeAssemblyHeaders atStart [] = []"
| "removeAssemblyHeaders atStart (c # cs) =
     (if atStart \<and> take 2 (c # cs) = ''# ''
      then removeAssemblyHeaders False (dropWhile (\<lambda>x. \<not> isLineTerminator x) (drop 2 (c # cs)))
      else c # removeAssemblyHeaders (isLineTerminator c) cs)"
  by pat_completeness auto
termination
proof (relation "measure (\<lambda>(a, s). length s)")
  show "wf (measure (\<lambda>(a, s). length s))" by simp
next
  fix atStart :: bool and c :: char and cs :: string
  have "length (dropWhile (\<lambda>x. \<not> isLineTerminator x) (drop 2 (c # cs)))
          \<le> length (drop 2 (c # cs))"
    by (rule length_dropWhile_le)
  also have "\<dots> < length (c # cs)" by simp
  finally show "((False, dropWhile (\<lambda>x. \<not> isLineTerminator x) (drop 2 (c # cs))), atStart, c # cs)
          \<in> measure (\<lambda>(a, s). length s)"
    by simp
next
  fix atStart :: bool and c :: char and cs :: string
  show "((isLineTerminator c, cs), atStart, c # cs) \<in> measure (\<lambda>(a, s). length s)"
    by simp
qed

definition indexTitle :: string where
  "indexTitle = ''# .NET API Reference''"

definition combinedIndex :: "string \<Rightarrow> string" where
  "combinedIndex indexMarkdown = indexTitle @ [LF] @ removeAssemblyHeaders True indexMarkdown"

text \<open>
  The body of the \<open>try\<close> block. \<open>JSON.stringify(nav, null, 2)\<close> is a parameter.
\<close>

definition generateDocs ::
  "execSync \<Rightarrow> (navitem list \<Rightarrow> string) \<Rightarrow> env \<Rightarrow> proc \<Rightarrow> (error + unit) \<times> proc" where
  "generateDocs execSync stringify ev p =
     (case buildProjects execSync ev projectList [] (resetOutDir p) of
        (Inl e, p1) \<Rightarrow> (Inl e, p1)
      | (Inr indexMarkdown, p1) \<Rightarrow>
          (case (case outDirTree p1 of
                   None \<Rightarrow> Inl (ENOENT (outDir ev))
                 | Some es \<Rightarrow> generateNavigationTree es None) of
             Inl e \<Rightarrow> (Inl e, p1)
           | Inr nav \<Rightarrow>
               (case writeOutFile (outDir ev) ''nav.mts'' (''export default '' @ stringify nav) p1 of
                  (Inl e, p2) \<Rightarrow> (Inl e, p2)
                | (Inr u, p2) \<Rightarrow>
                    (case writeOutFile (outDir ev) ''index.md'' (combinedIndex indexMarkdown) p2 of
                       (Inl e, p3) \<Rightarrow> (Inl e, p3)
                     | (Inr u, p3) \<Rightarrow>
                         processMarkdownFiles (outDir ev)
                           (consoleLog ''Post-processing markdown files.'' p3)))))"

text \<open>
  The whole script: the \<open>try\<close> block and its handler \<open>catch (e) { console.error(e.message || e); }\<close>.
  The handler ends normally and the script sets no exit code, so Node ends the process with
  the status 0 on both paths.
\<close>

definition dotnetDocsMain ::
  "execSync \<Rightarrow> (navitem list \<Rightarrow> string) \<Rightarrow> env \<Rightarrow> proc \<Rightarrow> proc \<times> nat" where
  "dotnetDocsMain execSync stringify ev p =
     (case generateDocs execSync stringify ev p of
        (Inr u, p1) \<Rightarrow> (p1, 0)
      | (Inl e, p1) \<Rightarrow> (consoleError e p1, 0))"

section \<open>The JavaScript documentation script\<close>

subsection \<open>The declaration tree\<close>

text \<open>
  The part of the JSON of TypeDoc that the script reads; a field that may be missing is an
  option. A literal value is \<open>null\<close>, a boolean, a number (whole numbers only), a string, or the
  object TypeDoc writes for a big integer.
\<close>

datatype literalValue = LNull | LBool bool | LNumber int | LString string | LBigInt string bool

datatype commentPart = CommentPart (part_text: string)

datatype blockTag = BlockTag (tag_name: string) (tag_content: "commentPart list option")

datatype comment =
  Comment (comment_summary: "commentPart list option") (comment_blockTags: "blockTag list option")

datatype someType =
    SomeType (st_type: string) (st_value: "literalValue option") (st_name: "string option")
      (st_declaration: "declarationReflection option")
and declarationReflection = Declaration (decl_signatures: "signatureReflection list option")
and signatureReflection =
    Signature (sig_parameters: "parameterReflection list option") (sig_type: "someType option")
      (sig_comment: "comment option")
and parameterReflection =
    Parameter (param_name: string) (param_type: "someType option")
      (param_comment: "comment option")

datatype reflection =
  Reflection (refl_kind: nat) (refl_name: string) (refl_type: "someType option")
    (refl_comment: "comment option") (refl_signatures: "signatureReflection list option")

datatype projectReflection =
  ProjectReflection (project_name: string) (project_children: "reflection list option")

text \<open>\<open>typedoc.Models.ReflectionKind.Variable\<close> and \<open>.Function\<close>.\<close>

definition ReflectionKind_Variable :: nat where
  "ReflectionKind_Variable = 32"

definition ReflectionKind_Function :: nat where
  "ReflectionKind_Function = 64"

subsection \<open>Rendering\<close>

text \<open>\<open>JSON.stringify\<close> of a literal value. Of a missing value it is \<open>undefined\<close>, which every
  caller puts into a template literal: the text \<open>undefined\<close>.\<close>

definition hexDigit :: "nat \<Rightarrow> char" where
  "hexDigit n = (if n < 10 then char_of (48 + n) else char_of (87 + n))"

definition jsonEscapeChar :: "char \<Rightarrow> string" where
  "jsonEscapeChar c =
     (let n = (of_char c :: nat) in
      if c = DQ then [BACKSLASH, DQ]
      else if c = BACKSLASH then [BACKSLASH, BACKSLASH]
      else if n = 8 then [BACKSLASH, CHR ''b'']
      else if n = 9 then [BACKSLASH, CHR ''t'']
      else if n = 10 then [BACKSLASH, CHR ''n'']
      else if n = 12 then [BACKSLASH, CHR ''f'']
      else if n = 13 then [BACKSLASH, CHR ''r'']
      else if n < 32
      then [BACKSLASH, CHR ''u'', CHR ''0'', CHR ''0'', hexDigit (n div 16), hexDigit (n mod 16)]
      else [c])"

definition jsonQuote :: "string \<Rightarrow> string" where
  "jsonQuote s = [DQ] @ concat (map jsonEscapeChar s) @ [DQ]"

fun stringifyLiteral :: "literalValue option \<Rightarrow> string" where
  "stringifyLiteral None = ''undefined''"
| "stringifyLiteral (Some LNull) = ''null''"
| "stringifyLiteral (Some (LBool b)) = (if b then ''true'' else ''false'')"
| "stringifyLiteral (Some (LNumber i)) = showInt i"
| "stringifyLiteral (Some (LString s)) = jsonQuote s"
| "stringifyLiteral (Some (LBigInt v negative)) =
     ''{'' @ jsonQuote ''value'' @ '':'' @ jsonQuote v @ '','' @ jsonQuote ''negative'' @ '':'' @
     (if negative then ''true'' else ''false'') @ ''}''"

text \<open>A \<open>map\<close> whose callback may throw.\<close>

fun mapE :: "('a \<Rightarrow> error + 'b) \<Rightarrow> 'a list \<Rightarrow> error + 'b list" where
  "mapE f [] = Inr []"
| "mapE f (x # xs) =
     (case f x of
        Inl e \<Rightarrow> Inl e
      | Inr y \<Rightarrow> (case mapE f xs of Inl e \<Rightarrow> Inl e | Inr ys \<Rightarrow> Inr (y # ys)))"

lemma mapE_cong [fundef_cong]:
  "xs = ys \<Longrightarrow> (\<And>x. x \<in> set ys \<Longrightarrow> f x = g x) \<Longrightarrow> mapE f xs = mapE g ys"
  by (induction ys arbitrary: xs) (auto split: sum.splits)

text \<open>
  \<open>typeToMarkdown\<close>. The first two tests read \<open>type?.type\<close> and \<open>type?.name\<close>; the third reads
  \<open>type.declaration\<close>, which throws when the type is missing, and then
  \<open>signature.parameters.map\<close>, which throws when the signature has no parameter list.
\<close>

function typeToMarkdown :: "someType option \<Rightarrow> error + string" where
  "typeToMarkdown None =
     Inl (TypeError ''Cannot read properties of undefined (reading 'declaration')'')"
| "typeToMarkdown (Some (SomeType t v n d)) =
     (if t = ''literal'' then Inr (stringifyLiteral v)
      else if truthy n then Inr (orEmpty n)
      else (case d of
              Some (Declaration (Some [Signature ps rt c])) \<Rightarrow>
                (case ps of
                   None \<Rightarrow> Inl (TypeError ''Cannot read properties of undefined (reading 'map')'')
                 | Some params \<Rightarrow>
                     (case mapE (\<lambda>p. case typeToMarkdown (param_type p) of
                                       Inl e \<Rightarrow> Inl e
                                     | Inr s \<Rightarrow> Inr (param_name p @ '': '' @ s)) params of
                        Inl e \<Rightarrow> Inl e
                      | Inr parameters \<Rightarrow>
                          (case typeToMarkdown rt of
                             Inl e \<Rightarrow> Inl e
                           | Inr r \<Rightarrow> Inr (''('' @ joinWith '', '' parameters @ '') => '' @ r))))
            | _ \<Rightarrow> Inr ''unknown''))"
  by pat_completeness auto
termination
proof -
  have est: "size_option size (param_type p) \<le> size_list size ps"
    if "p \<in> set ps" for p :: parameterReflection and ps
  proof -
    have "size p \<le> size_list size ps"
      using that size_list_estimation' [of p ps "size p" size] by simp
    moreover have "size_option size (param_type p) \<le> size p" by (cases p) simp
    ultimately show ?thesis by simp
  qed
  show ?thesis
    by (relation "measure (size_option size)") (auto dest!: est)
qed

definition commentToMarkdown :: "commentPart list option \<Rightarrow> string" where
  "commentToMarkdown c =
     joinWith [] (map part_text (case c of None \<Rightarrow> [] | Some parts \<Rightarrow> parts))"

text \<open>\<open>item.comment?.summary\<close>.\<close>

definition summaryOf :: "comment option \<Rightarrow> commentPart list option" where
  "summaryOf c = (case c of None \<Rightarrow> None | Some cm \<Rightarrow> comment_summary cm)"

definition codeFence :: string where
  "codeFence = [BACKTICK, BACKTICK, BACKTICK]"

definition convertPropertyReflectionToMarkdown :: "reflection \<Rightarrow> error + string" where
  "convertPropertyReflectionToMarkdown item =
     (case typeToMarkdown (refl_type item) of
        Inl e \<Rightarrow> Inl e
      | Inr ty \<Rightarrow>
          Inr ([LF] @ ''### '' @ refl_name item @ '' property'' @ [LF] @
               codeFence @ ''TypeScript'' @ [LF] @
               ''const dotnet.'' @ refl_name item @ '': '' @ ty @ [LF] @
               codeFence @ [LF] @
               commentToMarkdown (summaryOf (refl_comment item)) @ [LF]))"

text \<open>\<open>blockTags.find((t) => t.tag === name)\<close>.\<close>

definition findTag :: "string \<Rightarrow> blockTag list \<Rightarrow> blockTag option" where
  "findTag name tags = List.find (\<lambda>t. tag_name t = name) tags"

text \<open>The text one signature of a function adds.\<close>

definition signatureToMarkdown :: "string \<Rightarrow> signatureReflection \<Rightarrow> error + string" where
  "signatureToMarkdown itemName sg =
     (case sig_parameters sg of
        None \<Rightarrow> Inl (TypeError ''Cannot read properties of undefined (reading 'map')'')
      | Some params \<Rightarrow>
          (case mapE (\<lambda>p. case typeToMarkdown (param_type p) of
                            Inl e \<Rightarrow> Inl e
                          | Inr s \<Rightarrow> Inr (param_name p @ '': '' @ s)) params of
             Inl e \<Rightarrow> Inl e
           | Inr parameters0 \<Rightarrow>
               (let parameters =
                      (if length parameters0 > 1
                       then butlast (map (\<lambda>q. [LF] @ ''    '' @ q @ '','') parameters0) @
                            [last (map (\<lambda>q. [LF] @ ''    '' @ q @ '','') parameters0) @ [LF]]
                       else parameters0);
                    returnName =
                      (case sig_type sg of
                         None \<Rightarrow> ''undefined''
                       | Some ty \<Rightarrow> (case st_name ty of None \<Rightarrow> ''undefined'' | Some nm \<Rightarrow> nm));
                    tags =
                      (case sig_comment sg of
                         None \<Rightarrow> []
                       | Some cm \<Rightarrow> (case comment_blockTags cm of None \<Rightarrow> [] | Some ts \<Rightarrow> ts))
                in Inr (codeFence @ ''TypeScript'' @ [LF] @
                        ''dotnet.'' @ itemName @ ''('' @ joinWith [] parameters @ ''): '' @
                        returnName @ [LF] @
                        codeFence @ [LF] @
                        commentToMarkdown (summaryOf (sig_comment sg)) @ [LF] @
                        concat (map (\<lambda>p. ''- **'' @ param_name p @ ''**: '' @
                                          commentToMarkdown (summaryOf (param_comment p)) @ [LF])
                                  (filter (\<lambda>p. summaryOf (param_comment p) \<noteq> None) params)) @
                        (case findTag ''@returns'' tags of
                           None \<Rightarrow> []
                         | Some t \<Rightarrow> ''- Returns: '' @ commentToMarkdown (tag_content t) @ [LF]) @
                        (case findTag ''@description'' tags of
                           None \<Rightarrow> []
                         | Some t \<Rightarrow> [LF] @ commentToMarkdown (tag_content t) @ [LF])))))"

definition convertFunctionReflectionToMarkdown :: "reflection \<Rightarrow> error + string" where
  "convertFunctionReflectionToMarkdown item =
     (case refl_signatures item of
        None \<Rightarrow> Inl (TypeError ''item.signatures is not iterable'')
      | Some sigs \<Rightarrow>
          (case mapE (signatureToMarkdown (refl_name item)) sigs of
             Inl e \<Rightarrow> Inl e
           | Inr texts \<Rightarrow>
               Inr ([LF] @ ''### '' @ refl_name item @ '' method'' @ [LF] @ concat texts)))"

text \<open>The code group that shows how to import the module \<open>target\<close>.\<close>

definition importCodeGroup :: "string \<Rightarrow> string" where
  "importCodeGroup target =
     [LF] @
     ''  ::: code-group'' @ [LF] @
     ''  '' @ codeFence @ ''JavaScript [ES (TS or JS)]'' @ [LF] @
     ''  import dotnet from '' @ [CHR 0x27] @ target @ [CHR 0x27] @ '';'' @ [LF] @
     ''  '' @ codeFence @ [LF] @
     ''  '' @ codeFence @ ''TypeScript [CommonJS (TS)]'' @ [LF] @
     ''  import * as dotnet from '' @ [CHR 0x27] @ target @ [CHR 0x27] @ '';'' @ [LF] @
     ''  '' @ codeFence @ [LF] @
     ''  '' @ codeFence @ ''JavaScript [CommonJS (JS)]'' @ [LF] @
     ''  const dotnet = require('' @ [CHR 0x27] @ target @ [CHR 0x27] @ '');'' @ [LF] @
     ''  '' @ codeFence @ [LF] @
     ''  :::'' @ [LF]"

text \<open>\<open>convertJsonToMarkdown\<close>; \<open>JSON.parse\<close>, read as a declaration tree, is a parameter.\<close>

definition convertJsonToMarkdown ::
  "(string \<Rightarrow> error + projectReflection) \<Rightarrow> string \<Rightarrow> error + string" where
  "convertJsonToMarkdown parse json =
     (case parse json of
        Inl e \<Rightarrow> Inl e
      | Inr proj \<Rightarrow>
          (let markdown =
                 ''# '' @ project_name proj @ '' package'' @ [LF] @
                 importCodeGroup (project_name proj) @
                 ''To load a specific version of .NET, append the target framework moniker to '' @
                 ''the package name:'' @ [LF] @
                 importCodeGroup (project_name proj @ ''/net6.0'') @
                 ''Currently the supported target frameworks are '' @ [BACKTICK] @ ''net472'' @
                 [BACKTICK] @ '', '' @ [BACKTICK] @ ''net6.0'' @ [BACKTICK] @ '', and '' @
                 [BACKTICK] @ ''net8.0'' @ [BACKTICK] @ ''.''
           in case project_children proj of
                None \<Rightarrow> Inl (TypeError ''Cannot read properties of undefined (reading 'filter')'')
              | Some children \<Rightarrow>
                  (let propertyReflections =
                         filter (\<lambda>item. refl_kind item = ReflectionKind_Variable) children;
                       functionReflections =
                         filter (\<lambda>item. refl_kind item = ReflectionKind_Function) children
                   in case mapE convertPropertyReflectionToMarkdown propertyReflections of
                        Inl e \<Rightarrow> Inl e
                      | Inr props \<Rightarrow>
                          (case mapE convertFunctionReflectionToMarkdown functionReflections of
                             Inl e \<Rightarrow> Inl e
                           | Inr funs \<Rightarrow>
                               Inr (markdown @
                                    (if propertyReflections \<noteq> []
                                     then [LF] @ ''## Properties'' @ [LF] @ concat props else []) @
                                    (if functionReflections \<noteq> []
                                     then [LF] @ ''## Methods'' @ [LF] @ concat funs else []))))))"

subsection \<open>The script\<close>

text \<open>
  What TypeDoc does is given from outside: \<open>Application.bootstrap\<close> for an entry point (it
  may reject), \<open>app.convert()\<close> (it may reject, or give no project), and \<open>app.generateJson\<close>,
  which writes the JSON file of a project into the output directory (or rejects).
\<close>

record 'p typedoc =
  td_bootstrap :: "string \<Rightarrow> error option"
  td_convert :: "error + 'p option"
  td_generateJson ::
    "'p \<Rightarrow> string \<Rightarrow> (string \<times> entry) list option \<Rightarrow> error + (string \<times> entry) list option"

definition jsSrcDir :: "env \<Rightarrow> string" where
  "jsSrcDir ev = pathResolve (dirname ev) ''../../src/node-api-dotnet''"

definition jsOutDir :: "env \<Rightarrow> string" where
  "jsOutDir ev = pathResolve (dirname ev) ''../reference/js''"

definition exportJsdocToJson :: "'p typedoc \<Rightarrow> env \<Rightarrow> proc \<Rightarrow> (error + string) \<times> proc" where
  "exportJsdocToJson td ev p =
     (let p1 = resetOutDir p;
          packageTypedefsFile = pathJoin [jsSrcDir ev, ''index.d.ts'']
      in if packageTypedefsFile \<notin> set (files p1)
         then (Inl (Error (''File not found: '' @ packageTypedefsFile)), p1)
         else (case td_bootstrap td packageTypedefsFile of
                 Some e \<Rightarrow> (Inl e, p1)
               | None \<Rightarrow>
                   (case td_convert td of
                      Inl e \<Rightarrow> (Inl e, p1)
                    | Inr None \<Rightarrow>
                        (Inl (Error ''Failed to convert TypeScript to documentation.''), p1)
                    | Inr (Some proj) \<Rightarrow>
                        (case td_generateJson td proj (pathJoin [jsOutDir ev, ''api.json''])
                                (outDirTree p1) of
                           Inl e \<Rightarrow> (Inl e, p1)
                         | Inr tree \<Rightarrow>
                             (let p2 = p1\<lparr>outDirTree := tree\<rparr> in
                              case readOutFile (jsOutDir ev) ''api.json'' p2 of
                                Inl e \<Rightarrow> (Inl e, p2)
                              | Inr json \<Rightarrow> (Inr json, p2))))))"

text \<open>
  The promise chain
  \<open>exportJsdocToJson().then(convertJsonToMarkdown).then((md) => fs.writeFileSync(..., md))\<close>
  with its handler \<open>.catch((e) => { console.error(e.message || e); process.exit(1); })\<close>; the
  result is the last state and the exit status of the process.
\<close>

definition jsDocsMain ::
  "'p typedoc \<Rightarrow> (string \<Rightarrow> error + projectReflection) \<Rightarrow> env \<Rightarrow> proc \<Rightarrow> proc \<times> nat" where
  "jsDocsMain td parse ev p =
     (case exportJsdocToJson td ev p of
        (Inl e, p1) \<Rightarrow> (consoleError e p1, 1)
      | (Inr json, p1) \<Rightarrow>
          (case convertJsonToMarkdown parse json of
             Inl e \<Rightarrow> (consoleError e p1, 1)
           | Inr md \<Rightarrow>
               (case writeOutFile (jsOutDir ev) ''index.md'' md p1 of
                  (Inl e, p2) \<Rightarrow> (consoleError e p2, 1)
                | (Inr u, p2) \<Rightarrow> (p2, 0))))"

section \<open>The words of the specification about the combined index\<close>

text \<open>The Markdown that the projects of a list contribute, each read after its own build, in
  the order of the list; \<open>None\<close> when a build fails.\<close>

fun projectMarkdowns :: "execSync \<Rightarrow> env \<Rightarrow> project list \<Rightarrow> proc \<Rightarrow> string list option" where
  "projectMarkdowns execSync ev [] p = Some []"
| "projectMarkdowns execSync ev (pr # projects) p =
     (case buildProjectMarkdownDocs execSync ev (proj_name pr) (proj_references pr) p of
        (Inl e, p1) \<Rightarrow> None
      | (Inr md, p1) \<Rightarrow> map_option ((#) md) (projectMarkdowns execSync ev projects p1))"

text \<open>The lines of a text, cut at every line terminator, and the terminators between them.\<close>

fun textLines :: "string \<Rightarrow> string list" where
  "textLines [] = [[]]"
| "textLines (x # xs) =
     (if isLineTerminator x then [] # textLines xs
      else (case textLines xs of [] \<Rightarrow> [[x]] | l # ls \<Rightarrow> (x # l) # ls))"

definition terminatorsOf :: "string \<Rightarrow> string" where
  "terminatorsOf s = filter isLineTerminator s"

text \<open>A level-1 header line: a hash and a space, then the title.\<close>

definition isLevel1Header :: "string \<Rightarrow> bool" where
  "isLevel1Header l = (take 2 l = ''# '')"

section \<open>Properties of the post-processor\<close>

lemma lookbehindPipe_iff: "lookbehindPipe pre \<longleftrightarrow> CHR ''|'' \<in> set pre"
  by (auto simp: lookbehindPipe_def dropWhile_eq_Nil_conv)

lemma lookaheadPipe_iff: "lookaheadPipe rest \<longleftrightarrow> CHR ''|'' \<in> set rest"
  by (auto simp: lookaheadPipe_def dropWhile_eq_Nil_conv)

lemma replaceInCells_no_pipe_ahead:
  "CHR ''|'' \<notin> set xs \<Longrightarrow> replaceInCells c rep pre xs = xs"
  by (induction xs arbitrary: pre) (auto simp: lookaheadPipe_iff)

lemma replaceInCells_no_pipe_behind:
  "CHR ''|'' \<notin> set pre \<Longrightarrow> CHR ''|'' \<notin> set a \<Longrightarrow>
   replaceInCells c rep pre (a @ ys) = a @ replaceInCells c rep (pre @ a) ys"
  by (induction a arbitrary: pre) (auto simp: lookbehindPipe_iff)

lemma replaceInCells_inside:
  "CHR ''|'' \<in> set pre \<Longrightarrow> CHR ''|'' \<notin> set d \<Longrightarrow> c \<noteq> CHR ''|'' \<Longrightarrow>
   b = [] \<or> last b = CHR ''|'' \<Longrightarrow>
   replaceInCells c rep pre (b @ d) = concat (map (\<lambda>x. if x = c then rep else [x]) b) @ d"
proof (induction b arbitrary: pre)
  case Nil
  then show ?case by (simp add: replaceInCells_no_pipe_ahead)
next
  case (Cons x b)
  show ?case
  proof (cases "b = []")
    case True
    with Cons.prems show ?thesis by (simp add: replaceInCells_no_pipe_ahead)
  next
    case False
    with Cons.prems have l: "last b = CHR ''|''" by simp
    with False have "CHR ''|'' \<in> set b" using last_in_set by metis
    then have ahead: "lookaheadPipe (b @ d)" by (simp add: lookaheadPipe_iff)
    have behind: "lookbehindPipe pre" using Cons.prems(1) by (simp add: lookbehindPipe_iff)
    have "replaceInCells c rep (pre @ [x]) (b @ d) =
            concat (map (\<lambda>x. if x = c then rep else [x]) b) @ d"
      using Cons.IH [of "pre @ [x]"] Cons.prems l by simp
    with ahead behind show ?thesis by (cases "x = c") auto
  qed
qed

text \<open>A text is wrapped when it is empty or begins and ends with a bar.\<close>

lemma replaceInCells_parts:
  assumes "CHR ''|'' \<notin> set a" and "CHR ''|'' \<notin> set d" and "c \<noteq> CHR ''|''"
    and "b = [] \<or> (hd b = CHR ''|'' \<and> last b = CHR ''|'')"
  shows "replaceInCells c rep [] (a @ b @ d) =
           a @ concat (map (\<lambda>x. if x = c then rep else [x]) b) @ d"
proof -
  have step: "replaceInCells c rep [] (a @ b @ d) = a @ replaceInCells c rep a (b @ d)"
    using replaceInCells_no_pipe_behind [of "[]" a c rep "b @ d"] assms(1) by simp
  show ?thesis
  proof (cases b)
    case Nil
    with step assms(2) show ?thesis by (simp add: replaceInCells_no_pipe_ahead)
  next
    case (Cons x b')
    with assms(4) have x: "x = CHR ''|''" and l: "last (x # b') = CHR ''|''" by auto
    have b': "b' = [] \<or> last b' = CHR ''|''" using l by (cases "b' = []") auto
    have "replaceInCells c rep (a @ [x]) (b' @ d) =
            concat (map (\<lambda>x. if x = c then rep else [x]) b') @ d"
      using replaceInCells_inside [OF _ assms(2) assms(3) b', of "a @ [x]" rep] x by simp
    with step Cons x assms(3) show ?thesis by simp
  qed
qed

lemma wrapped_concat_map:
  assumes "b = [] \<or> (hd b = CHR ''|'' \<and> last b = CHR ''|'')"
    and "f (CHR ''|'') = [CHR ''|'']"
  shows "concat (map f b) = [] \<or>
         (hd (concat (map f b)) = CHR ''|'' \<and> last (concat (map f b)) = CHR ''|'')"
proof (cases "b = []")
  case True
  then show ?thesis by simp
next
  case False
  with assms(1) have h: "hd b = CHR ''|''" and l: "last b = CHR ''|''" by auto
  from False h obtain t where t: "b = CHR ''|'' # t" by (cases b) auto
  from False l obtain i where i: "b = i @ [CHR ''|'']"
    by (metis append_butlast_last_id)
  have "hd (concat (map f b)) = CHR ''|''" using t assms(2) by simp
  moreover have "last (concat (map f b)) = CHR ''|''"
  proof -
    have "concat (map f b) = concat (map f i) @ [CHR ''|'']" using i assms(2) by simp
    then show ?thesis by simp
  qed
  ultimately show ?thesis by simp
qed

lemma entity_passes:
  "concat (map (\<lambda>x. if x = CHR ''}'' then ''&rbrace;'' else [x])
     (concat (map (\<lambda>x. if x = CHR ''{'' then ''&lbrace;'' else [x])
       (concat (map (\<lambda>x. if x = CHR '';'' then ''&semi;'' else [x]) b))))) =
   concat (map entity b)"
  by (induction b) (simp_all add: entity_def)

lemma escapeTableChars_parts:
  assumes a: "CHR ''|'' \<notin> set a" and d: "CHR ''|'' \<notin> set d"
    and b: "b = [] \<or> (hd b = CHR ''|'' \<and> last b = CHR ''|'')"
  shows "escapeTableChars (a @ b @ d) = a @ concat (map entity b) @ d"
proof -
  let ?f1 = "\<lambda>x. if x = CHR '';'' then ''&semi;'' else [x]"
  let ?f2 = "\<lambda>x. if x = CHR ''{'' then ''&lbrace;'' else [x]"
  let ?f3 = "\<lambda>x. if x = CHR ''}'' then ''&rbrace;'' else [x]"
  let ?b1 = "concat (map ?f1 b)"
  let ?b2 = "concat (map ?f2 ?b1)"
  have p1: "replaceInCells (CHR '';'') ''&semi;'' [] (a @ b @ d) = a @ ?b1 @ d"
    by (rule replaceInCells_parts [OF a d _ b]) simp
  have w1: "?b1 = [] \<or> (hd ?b1 = CHR ''|'' \<and> last ?b1 = CHR ''|'')"
    by (rule wrapped_concat_map [OF b]) simp
  have p2: "replaceInCells (CHR ''{'') ''&lbrace;'' [] (a @ ?b1 @ d) = a @ ?b2 @ d"
    by (rule replaceInCells_parts [OF a d _ w1]) simp
  have w2: "?b2 = [] \<or> (hd ?b2 = CHR ''|'' \<and> last ?b2 = CHR ''|'')"
    by (rule wrapped_concat_map [OF w1]) simp
  have p3: "replaceInCells (CHR ''}'') ''&rbrace;'' [] (a @ ?b2 @ d) =
              a @ concat (map ?f3 ?b2) @ d"
    by (rule replaceInCells_parts [OF a d _ w2]) simp
  show ?thesis
    unfolding escapeTableChars_def p1 p2 p3 entity_passes ..
qed

lemma parts_append: "beforeFirstPipe md @ betweenPipes md @ afterLastPipe md = md"
proof -
  have "betweenPipes md @ afterLastPipe md = fromFirstPipe md"
    unfolding betweenPipes_def afterLastPipe_def
    by (metis rev_append rev_rev_ident takeWhile_dropWhile_id)
  then show ?thesis by (simp add: beforeFirstPipe_def fromFirstPipe_def)
qed

lemma beforeFirstPipe_no_pipe: "CHR ''|'' \<notin> set (beforeFirstPipe md)"
  unfolding beforeFirstPipe_def by (auto dest: set_takeWhileD)

lemma afterLastPipe_no_pipe: "CHR ''|'' \<notin> set (afterLastPipe md)"
  unfolding afterLastPipe_def by (auto dest: set_takeWhileD)

lemma betweenPipes_wrapped:
  "betweenPipes md = [] \<or> (hd (betweenPipes md) = CHR ''|'' \<and> last (betweenPipes md) = CHR ''|'')"
proof (cases "betweenPipes md = []")
  case True
  then show ?thesis by simp
next
  case False
  let ?r = "fromFirstPipe md"
  let ?q = "dropWhile (\<lambda>x. x \<noteq> CHR ''|'') (rev ?r)"
  from False have q: "?q \<noteq> []" by (simp add: betweenPipes_def)
  then have hq: "hd ?q = CHR ''|''" using hd_dropWhile [of "\<lambda>x. x \<noteq> CHR ''|''" "rev ?r"] by simp
  have l: "last (betweenPipes md) = CHR ''|''"
    using q hq by (simp add: betweenPipes_def last_rev)
  from q have r: "?r \<noteq> []" by auto
  then have hr: "hd ?r = CHR ''|''"
    using hd_dropWhile [of "\<lambda>x. x \<noteq> CHR ''|''" md] by (simp add: fromFirstPipe_def)
  have "?r = betweenPipes md @ afterLastPipe md"
    unfolding betweenPipes_def afterLastPipe_def
    by (metis rev_append rev_rev_ident takeWhile_dropWhile_id)
  with False have "hd (betweenPipes md) = hd ?r" by (metis hd_append2)
  with hr l show ?thesis by simp
qed

lemma escapeTableChars_spec:
  "escapeTableChars md =
     beforeFirstPipe md @ concat (map entity (betweenPipes md)) @ afterLastPipe md"
  using escapeTableChars_parts [OF beforeFirstPipe_no_pipe afterLastPipe_no_pipe
      betweenPipes_wrapped, of md md md]
  by (simp add: parts_append)


lemma splitLines_frontMatter:
  "splitLines (frontMatter @ rest) =
     [''---'', ''editLink: false'', ''prev: false'', ''next: false'', ''outline: false'', ''---'']
     @ splitLines rest"
  by (simp add: frontMatter_def)

lemma frontMatterLines_eq:
  "frontMatterLines =
     [''---'', ''editLink: false'', ''prev: false'', ''next: false'', ''outline: false'', ''---'']"
  using splitLines_frontMatter [of "[]"] by (simp add: frontMatterLines_def)

lemma frontMatterKeys_eq: "frontMatterKeys = [''editLink'', ''prev'', ''next'', ''outline'']"
  by (simp add: frontMatterKeys_def frontMatterLines_eq)

lemma entity_nonempty: "entity x \<noteq> []"
  by (simp add: entity_def)

lemma length_concat_entity: "length b \<le> length (concat (map entity b))"
proof (induction b)
  case Nil
  then show ?case by simp
next
  case (Cons x b)
  have "1 \<le> length (entity x)" using entity_nonempty [of x] by (cases "entity x") auto
  with Cons show ?case by simp
qed

lemma length_escapeTableChars: "length md \<le> length (escapeTableChars md)"
proof -
  have "length md =
          length (beforeFirstPipe md) + length (betweenPipes md) + length (afterLastPipe md)"
    using parts_append [of md] by (metis length_append add.assoc)
  also have "\<dots> \<le> length (escapeTableChars md)"
    using length_concat_entity [of "betweenPipes md"] by (simp add: escapeTableChars_spec)
  finally show ?thesis .
qed

lemma frontMatter_no_pipe: "CHR ''|'' \<notin> set frontMatter"
  by (simp add: frontMatter_def)

lemma escapeTableChars_frontMatter:
  "escapeTableChars (frontMatter @ t) = frontMatter @ escapeTableChars t"
proof -
  have np: "CHR ''|'' \<notin> set (frontMatter @ beforeFirstPipe t)"
    using frontMatter_no_pipe beforeFirstPipe_no_pipe by simp
  have "escapeTableChars ((frontMatter @ beforeFirstPipe t) @ betweenPipes t @ afterLastPipe t) =
          (frontMatter @ beforeFirstPipe t) @ concat (map entity (betweenPipes t)) @ afterLastPipe t"
    by (rule escapeTableChars_parts [OF np afterLastPipe_no_pipe betweenPipes_wrapped])
  then show ?thesis by (simp add: parts_append escapeTableChars_spec)
qed

subsection \<open>Escaping in table cells\<close>

text \<open>
  C2. The claim is what the comment in the code announces: the escape is meant for Markdown
  tables only. The code departs from it, because the class \<open>[^|]\<close> of the look-behind and
  of the look-ahead also matches line terminators: a line without any bar that stands between
  two table rows is no table row, and its \<open>;\<close>, \<open>{\<close> and \<open>}\<close> are replaced all the same.
\<close>

theorem nontable_line_between_rows_escaped:
  "processMarkdown (''| x |'' @ [LF] @ ''a;b {c}'' @ [LF] @ ''| y |'') =
     frontMatter @ ''| x |'' @ [LF] @ ''a&semi;b &lbrace;c&rbrace;'' @ [LF] @ ''| y |'' \<and>
   processMarkdown (''| x |'' @ [LF] @ ''a;b {c}'' @ [LF] @ ''| y |'') \<noteq>
     frontMatter @ ''| x |'' @ [LF] @ ''a;b {c}'' @ [LF] @ ''| y |''"
  by (simp add: processMarkdown_def escapeTableChars_def lookbehindPipe_def lookaheadPipe_def)

text \<open>On a table row alone and on a line without bars alone the code does what the claim
  says.\<close>

lemma escape_row_and_plain_line:
  "processMarkdown ''| a;b | {c} |'' = frontMatter @ ''| a&semi;b | &lbrace;c&rbrace; |'' \<and>
   processMarkdown ''a;b {c}'' = frontMatter @ ''a;b {c}''"
  by (simp add: processMarkdown_def escapeTableChars_def lookbehindPipe_def lookaheadPipe_def)

subsection \<open>Applying the post-processor twice\<close>

text \<open>
  C3, as the code has it. The post-processor is not idempotent: a second application puts a
  second front matter before the first and escapes the text between the bars once more, so
  its result always differs from the result of one application.
\<close>

theorem processMarkdown_twice:
  "processMarkdown (processMarkdown s) =
     frontMatter @ frontMatter @ escapeTableChars (escapeTableChars s) \<and>
   processMarkdown (processMarkdown s) \<noteq> processMarkdown s"
proof
  show eq: "processMarkdown (processMarkdown s) =
     frontMatter @ frontMatter @ escapeTableChars (escapeTableChars s)"
    by (simp add: processMarkdown_def escapeTableChars_frontMatter)
  have "length (processMarkdown s) < length (processMarkdown (processMarkdown s))"
    unfolding eq using length_escapeTableChars [of "escapeTableChars s"]
    by (simp add: processMarkdown_def frontMatter_def)
  then show "processMarkdown (processMarkdown s) \<noteq> processMarkdown s" by auto
qed

text \<open>
  C3 as it is written fails on the row \<open>| a;b |\<close>: the second application doubles the front
  matter and turns \<open>&semi;\<close> into \<open>&semi&semi;\<close>.
\<close>

theorem processMarkdown_not_idempotent:
  "processMarkdown (processMarkdown ''| a;b |'') =
     frontMatter @ frontMatter @ ''| a&semi&semi;b |'' \<and>
   processMarkdown ''| a;b |'' = frontMatter @ ''| a&semi;b |'' \<and>
   processMarkdown (processMarkdown ''| a;b |'') \<noteq> processMarkdown ''| a;b |''"
proof -
  have e1: "escapeTableChars ''| a;b |'' = ''| a&semi;b |''"
    by (simp add: escapeTableChars_def lookbehindPipe_def lookaheadPipe_def)
  have e2: "escapeTableChars ''| a&semi;b |'' = ''| a&semi&semi;b |''"
    by (simp add: escapeTableChars_def lookbehindPipe_def lookaheadPipe_def)
  have ne: "frontMatter \<noteq> []" by (simp add: frontMatter_def)
  show ?thesis
    using ne by (simp add: processMarkdown_def escapeTableChars_frontMatter e1 e2)
qed

subsection \<open>The front matter\<close>

text \<open>
  C5, as the code has it. The front matter block has six lines, two \<open>---\<close> lines around four
  keys (\<open>editLink\<close>, \<open>prev\<close>, \<open>next\<close>, \<open>outline\<close>); whatever the input, the output begins with
  the block, and its first six lines are the lines of the block.
\<close>

theorem front_matter_first_six_lines:
  "take 6 (splitLines (processMarkdown md)) = frontMatterLines \<and>
   take (length frontMatter) (processMarkdown md) = frontMatter \<and>
   frontMatterLines =
     [''---'', ''editLink: false'', ''prev: false'', ''next: false'', ''outline: false'', ''---''] \<and>
   frontMatterKeys = [''editLink'', ''prev'', ''next'', ''outline'']"
  by (simp add: processMarkdown_def splitLines_frontMatter frontMatterLines_eq frontMatterKeys_eq)

text \<open>
  C5 as it is written fails: the first five lines of an output are not the block, which has six
  lines, and the block sets four keys, not five.
\<close>

theorem front_matter_not_five_lines:
  "take 5 (splitLines (processMarkdown [])) \<noteq> frontMatterLines \<and>
   length frontMatterLines = 6 \<and> length frontMatterKeys = 4"
  by (simp add: processMarkdown_def splitLines_frontMatter frontMatterLines_eq frontMatterKeys_eq)

section \<open>Properties of the navigation tree\<close>

lemma generateNavigationTree_files:
  "generateNavigationTree es subDir = forEachE (fileNavItems es subDir) (markdownStems es)"
  by (subst generateNavigationTree.simps)
     (unfold fileNavItems_def fileSubItems_def navItemOf_def, rule refl)

lemma forEachE_list_all:
  assumes "forEachE f xs = Inr ys"
    and "\<And>x zs. x \<in> set xs \<Longrightarrow> f x = Inr zs \<Longrightarrow> list_all P zs"
  shows "list_all P ys"
  using assms
proof (induction xs arbitrary: ys)
  case Nil
  then show ?case by simp
next
  case (Cons x xs)
  from Cons.prems(1) obtain g rest where g: "f x = Inr g" and r: "forEachE f xs = Inr rest"
    and ys: "ys = g @ rest"
    by (auto split: sum.splits)
  have "list_all P g" using Cons.prems(2) [of x g] g by simp
  moreover have "list_all P rest"
  proof (rule Cons.IH [OF r])
    fix y zs
    assume "y \<in> set xs" and "f y = Inr zs"
    then show "list_all P zs" using Cons.prems(2) [of y zs] by simp
  qed
  ultimately show ?case using ys by simp
qed

lemma forEachE_groups:
  "forEachE f xs = Inr ys \<Longrightarrow> \<exists>gs. list_all2 (\<lambda>x g. f x = Inr g) xs gs \<and> ys = concat gs"
proof (induction xs arbitrary: ys)
  case Nil
  then show ?case by simp
next
  case (Cons x xs)
  from Cons.prems obtain g rest where g: "f x = Inr g" and r: "forEachE f xs = Inr rest"
    and ys: "ys = g @ rest"
    by (auto split: sum.splits)
  from Cons.IH [OF r] obtain gs where "list_all2 (\<lambda>x g. f x = Inr g) xs gs" "rest = concat gs"
    by blast
  with g ys have "list_all2 (\<lambda>x g. f x = Inr g) (x # xs) (g # gs) \<and> ys = concat (g # gs)"
    by simp
  then show ?case by blast
qed

lemma forEachE_headers:
  "forEachE (\<lambda>header. case r of Inl e \<Rightarrow> Inl e | Inr s \<Rightarrow> Inr [g header s]) hs = Inr zs \<Longrightarrow>
   (hs = [] \<and> zs = []) \<or> (\<exists>s. r = Inr s \<and> zs = map (\<lambda>h. g h s) hs)"
  by (induction hs arbitrary: zs) (auto split: sum.splits)

lemma fileNavItems_Inr:
  assumes "fileNavItems es subDir file = Inr zs"
  shows "\<exists>headers.
           getMarkdownFileHeaders es (file @ ''.md'') (if truthy subDir then ''#'' else ''##'') =
             Inr headers \<and>
           ((mergeOverloads headers = [] \<and> zs = []) \<or>
            (\<exists>s. fileSubItems es subDir file = Inr s \<and>
                 zs = map (\<lambda>h. navItemOf subDir file h s) (mergeOverloads headers)))"
proof -
  from assms obtain headers where
    h: "getMarkdownFileHeaders es (file @ ''.md'') (if truthy subDir then ''#'' else ''##'') =
          Inr headers"
    and fe: "forEachE (\<lambda>header. case fileSubItems es subDir file of
                                  Inl e \<Rightarrow> Inl e
                                | Inr subItems \<Rightarrow> Inr [navItemOf subDir file header subItems])
               (mergeOverloads headers) = Inr zs"
    by (auto simp: fileNavItems_def split: sum.splits)
  from forEachE_headers [OF fe] h show ?thesis by blast
qed

subsection \<open>The field collapsed\<close>

text \<open>
  C9. Every item that the navigation-tree builder returns, at every depth, has \<open>collapsed\<close>
  equal to \<open>true\<close> when it has \<open>items\<close> and has no \<open>collapsed\<close> when it has no \<open>items\<close>;
  so \<open>collapsed: false\<close> never occurs.
\<close>

theorem collapsed_matches_items:
  "generateNavigationTree es subDir = Inr its \<Longrightarrow> list_all collapsedMatchesItems its"
proof (induction es subDir arbitrary: its rule: generateNavigationTree.induct)
  case (1 es subDir)
  have "list_all collapsedMatchesItems zs" if z: "fileNavItems es subDir fl = Inr zs" for fl zs
  proof -
    from fileNavItems_Inr [OF z] obtain headers where
      h: "getMarkdownFileHeaders es (fl @ ''.md'') (if truthy subDir then ''#'' else ''##'') =
            Inr headers"
      and d: "(mergeOverloads headers = [] \<and> zs = []) \<or>
              (\<exists>s. fileSubItems es subDir fl = Inr s \<and>
                   zs = map (\<lambda>h. navItemOf subDir fl h s) (mergeOverloads headers))"
      by blast
    from d show ?thesis
    proof
      assume "mergeOverloads headers = [] \<and> zs = []"
      then show ?thesis by simp
    next
      assume "\<exists>s. fileSubItems es subDir fl = Inr s \<and>
                  zs = map (\<lambda>h. navItemOf subDir fl h s) (mergeOverloads headers)"
      then obtain s where s: "fileSubItems es subDir fl = Inr s"
        and zs: "zs = map (\<lambda>h. navItemOf subDir fl h s) (mergeOverloads headers)"
        by blast
      have item: "collapsedMatchesItems (navItemOf subDir fl hdr s)" for hdr
      proof (cases s)
        case None
        then show ?thesis by (simp add: navItemOf_def)
      next
        case (Some sub_its)
        from s Some obtain sub where c: "isChildName fl" and m: "map_of es fl = Some (Dir sub)"
          and g: "generateNavigationTree sub (Some (pathJoin [orEmpty subDir, fl])) = Inr sub_its"
          by (auto simp: fileSubItems_def split: if_splits option.splits entry.splits sum.splits)
        have "list_all collapsedMatchesItems sub_its"
          using "1.IH" [OF h _ m refl g] c by simp
        with Some show ?thesis by (simp add: navItemOf_def)
      qed
      show ?thesis unfolding zs by (simp add: list_all_iff item)
    qed
  qed
  with "1.prems" show ?case
    unfolding generateNavigationTree_files by (rule forEachE_list_all)
qed

text \<open>A directory with a Markdown file and a directory of the same name, which holds a file
  of its own: the item of the first has \<open>items\<close> and \<open>collapsed: true\<close>, the item inside has
  neither.\<close>

theorem collapsed_matches_items_witness:
  "generateNavigationTree
     [(''A.md'', File (''## Ns namespace'' @ [LF])),
      (''A'', Dir [(''T.md'', File (''# T class'' @ [LF]))])] None =
     Inr [NavItem ''Ns'' ''/reference/dotnet/#ns-namespace''
            (Some [NavItem ''T class'' ''/reference/dotnet/A/T'' None None]) (Some True)] \<and>
   list_all collapsedMatchesItems
     [NavItem ''Ns'' ''/reference/dotnet/#ns-namespace''
        (Some [NavItem ''T class'' ''/reference/dotnet/A/T'' None None]) (Some True)]"
proof -
  have g: "generateNavigationTree
     [(''A.md'', File (''## Ns namespace'' @ [LF])),
      (''A'', Dir [(''T.md'', File (''# T class'' @ [LF]))])] None =
     Inr [NavItem ''Ns'' ''/reference/dotnet/#ns-namespace''
            (Some [NavItem ''T class'' ''/reference/dotnet/A/T'' None None]) (Some True)]"
    by code_simp
  from collapsed_matches_items [OF g] g show ?thesis by simp
qed

subsection \<open>The order of the files\<close>

text \<open>
  C10. The items of a directory are the items of its Markdown files one file after the
  other, the files taken in the sorted order of their names without the extension: the
  result is the concatenation of one group of items per file, and the groups stand in the
  order of the sorted names. So every item of a file with a smaller name stands before every
  item of a file with a larger name.
\<close>

theorem items_in_sorted_file_order:
  "generateNavigationTree es subDir = Inr its \<Longrightarrow>
   \<exists>groups.
     list_all2 (\<lambda>stem g. fileNavItems es subDir stem = Inr g) (markdownStems es) groups \<and>
     its = concat groups \<and>
     sorted (markdownStems es) \<and>
     set (markdownStems es) =
       (\<lambda>f. take (length f - 3) f) ` {f. f \<in> fst ` set es \<and> endsWith ''.md'' f}"
proof -
  assume "generateNavigationTree es subDir = Inr its"
  then have "forEachE (fileNavItems es subDir) (markdownStems es) = Inr its"
    by (simp add: generateNavigationTree_files)
  from forEachE_groups [OF this] obtain groups where
    "list_all2 (\<lambda>stem g. fileNavItems es subDir stem = Inr g) (markdownStems es) groups"
    "its = concat groups"
    by blast
  moreover have "sorted (markdownStems es)" by (simp add: markdownStems_def)
  moreover have "set (markdownStems es) =
       (\<lambda>f. take (length f - 3) f) ` {f. f \<in> fst ` set es \<and> endsWith ''.md'' f}"
    by (auto simp: markdownStems_def)
  ultimately show ?thesis by blast
qed

text \<open>Two files listed in the order \<open>b.md\<close>, \<open>a.md\<close>: the item of \<open>a\<close> comes first.\<close>

theorem items_in_sorted_file_order_witness:
  "generateNavigationTree
     [(''b.md'', File (''## B1'' @ [LF] @ ''## B2'' @ [LF])), (''a.md'', File (''## A1'' @ [LF]))]
     None =
     Inr [NavItem ''A1'' ''/reference/dotnet/a'' None None,
          NavItem ''B1'' ''/reference/dotnet/b'' None None,
          NavItem ''B2'' ''/reference/dotnet/b'' None None] \<and>
   (\<exists>groups.
      list_all2
        (\<lambda>stem g.
           fileNavItems
             [(''b.md'', File (''## B1'' @ [LF] @ ''## B2'' @ [LF])),
              (''a.md'', File (''## A1'' @ [LF]))] None stem = Inr g)
        [''a'', ''b''] groups \<and>
      [NavItem ''A1'' ''/reference/dotnet/a'' None None,
       NavItem ''B1'' ''/reference/dotnet/b'' None None,
       NavItem ''B2'' ''/reference/dotnet/b'' None None] = concat groups)"
proof -
  let ?es = "[(''b.md'', File (''## B1'' @ [LF] @ ''## B2'' @ [LF])),
              (''a.md'', File (''## A1'' @ [LF]))]"
  have g: "generateNavigationTree ?es None =
     Inr [NavItem ''A1'' ''/reference/dotnet/a'' None None,
          NavItem ''B1'' ''/reference/dotnet/b'' None None,
          NavItem ''B2'' ''/reference/dotnet/b'' None None]"
    by code_simp
  have m: "markdownStems ?es = [''a'', ''b'']"
    by code_simp
  from items_in_sorted_file_order [OF g] obtain groups where
    a: "list_all2 (\<lambda>stem g. fileNavItems ?es None stem = Inr g) (markdownStems ?es) groups"
    and b: "[NavItem ''A1'' ''/reference/dotnet/a'' None None,
             NavItem ''B1'' ''/reference/dotnet/b'' None None,
             NavItem ''B2'' ''/reference/dotnet/b'' None None] = concat groups"
    by blast
  from a have "list_all2 (\<lambda>stem g. fileNavItems ?es None stem = Inr g) [''a'', ''b''] groups"
    unfolding m .
  with b g show ?thesis by blast
qed

subsection \<open>Overloads\<close>

lemma mergeOverloads_first:
  "testOverloadSuffix h \<Longrightarrow> mergeOverloads (h # hs) = [removeOverloadSuffix h]"
  by (simp add: mergeOverloads_def)

lemma mergeOverloads_other:
  "\<not> testOverloadSuffix h \<Longrightarrow> mergeOverloads (h # hs) = h # hs"
  by (simp add: mergeOverloads_def)

text \<open>
  C4, as the code has it. Only the first header of a file is tested. When the first header
  ends with a space and a parenthesised group that begins with a digit, the file gives one
  item, made from that header with the group cut off (and then shortened as every header
  is), and the other headers of the file are dropped: \<open>Foo (3 overloads)\<close> gives the text
  \<open>Foo\<close>. When the first header has no such suffix, nothing is merged: the file gives one
  item for each of its headers, also for a later header that has the suffix.
\<close>

theorem overloads_merged_by_first_header:
  assumes "getMarkdownFileHeaders es (stem @ ''.md'') (if truthy subDir then ''#'' else ''##'') =
             Inr (h # hs)"
    and "fileNavItems es subDir stem = Inr its"
  shows "(testOverloadSuffix h \<longrightarrow>
            (\<exists>s. its = [navItemOf subDir stem (removeOverloadSuffix h) s]) \<and>
            map nav_text its = [navText (removeOverloadSuffix h)]) \<and>
         (\<not> testOverloadSuffix h \<longrightarrow> map nav_text its = map navText (h # hs)) \<and>
         removeOverloadSuffix ''Foo (3 overloads)'' = ''Foo'' \<and> navText ''Foo'' = ''Foo''"
proof -
  from fileNavItems_Inr [OF assms(2)] assms(1) have
    d: "(mergeOverloads (h # hs) = [] \<and> its = []) \<or>
        (\<exists>s. fileSubItems es subDir stem = Inr s \<and>
             its = map (\<lambda>x. navItemOf subDir stem x s) (mergeOverloads (h # hs)))"
    by auto
  have ne: "mergeOverloads (h # hs) \<noteq> []" by (simp add: mergeOverloads_def)
  from d ne obtain s where
    its: "its = map (\<lambda>x. navItemOf subDir stem x s) (mergeOverloads (h # hs))"
    by blast
  have t: "nav_text (navItemOf subDir stem x s) = navText x" for x
    by (simp add: navItemOf_def)
  have a: "testOverloadSuffix h \<longrightarrow>
            (\<exists>s. its = [navItemOf subDir stem (removeOverloadSuffix h) s]) \<and>
            map nav_text its = [navText (removeOverloadSuffix h)]"
    using its t by (auto simp: mergeOverloads_first)
  have b: "\<not> testOverloadSuffix h \<longrightarrow> map nav_text its = map navText (h # hs)"
    using its t by (auto simp: mergeOverloads_other)
  have c: "removeOverloadSuffix ''Foo (3 overloads)'' = ''Foo''"
    by code_simp
  have e: "navText ''Foo'' = ''Foo''"
    by code_simp
  from a b c e show ?thesis by blast
qed

text \<open>A file whose first header has the suffix and which has a second header, and a file
  whose second header has the suffix.\<close>

theorem overloads_merged_by_first_header_witness:
  "fileNavItems [(''M.md'', File (''## Foo (3 overloads)'' @ [LF] @ ''## Bar'' @ [LF]))] None ''M'' =
     Inr [NavItem ''Foo'' ''/reference/dotnet/M'' None None] \<and>
   testOverloadSuffix ''Foo (3 overloads)'' \<and>
   map nav_text [NavItem ''Foo'' ''/reference/dotnet/M'' None None] = [''Foo''] \<and>
   fileNavItems [(''M.md'', File (''## Bar'' @ [LF] @ ''## Foo (3 overloads)'' @ [LF]))] None ''M'' =
     Inr [NavItem ''Bar'' ''/reference/dotnet/M'' None None,
          NavItem ''Foo (3 overloads)'' ''/reference/dotnet/M'' None None] \<and>
   \<not> testOverloadSuffix ''Bar'' \<and>
   map nav_text [NavItem ''Bar'' ''/reference/dotnet/M'' None None,
                 NavItem ''Foo (3 overloads)'' ''/reference/dotnet/M'' None None] =
     map navText [''Bar'', ''Foo (3 overloads)'']"
proof -
  let ?e1 = "[(''M.md'', File (''## Foo (3 overloads)'' @ [LF] @ ''## Bar'' @ [LF]))]"
  let ?e2 = "[(''M.md'', File (''## Bar'' @ [LF] @ ''## Foo (3 overloads)'' @ [LF]))]"
  have h1: "getMarkdownFileHeaders ?e1 (''M'' @ ''.md'') (if truthy None then ''#'' else ''##'') =
              Inr (''Foo (3 overloads)'' # [''Bar''])"
    by code_simp
  have f1: "fileNavItems ?e1 None ''M'' = Inr [NavItem ''Foo'' ''/reference/dotnet/M'' None None]"
    by code_simp
  have t1: "testOverloadSuffix ''Foo (3 overloads)''"
    by code_simp
  have h2: "getMarkdownFileHeaders ?e2 (''M'' @ ''.md'') (if truthy None then ''#'' else ''##'') =
              Inr (''Bar'' # [''Foo (3 overloads)''])"
    by code_simp
  have f2: "fileNavItems ?e2 None ''M'' =
              Inr [NavItem ''Bar'' ''/reference/dotnet/M'' None None,
                   NavItem ''Foo (3 overloads)'' ''/reference/dotnet/M'' None None]"
    by code_simp
  have t2: "\<not> testOverloadSuffix ''Bar''"
    by code_simp
  from overloads_merged_by_first_header [OF h1 f1] overloads_merged_by_first_header [OF h2 f2]
    f1 f2 t1 t2
  show ?thesis by simp
qed

text \<open>
  C4 as it is written fails when the header with the suffix is not the first of its file:
  the builder then gives an item for each header, and the text of the second keeps the
  suffix.
\<close>

theorem overload_suffix_kept_when_not_first:
  "generateNavigationTree
     [(''M.md'', File (''## Bar'' @ [LF] @ ''## Foo (3 overloads)'' @ [LF]))] None =
     Inr [NavItem ''Bar'' ''/reference/dotnet/M'' None None,
          NavItem ''Foo (3 overloads)'' ''/reference/dotnet/M'' None None]"
  by code_simp

section \<open>Properties of the combined index\<close>

lemma textLines_nonempty: "textLines s \<noteq> []"
  by (induction s) (auto split: list.splits)

lemma textLines_Cons_terminator:
  "isLineTerminator x \<Longrightarrow> textLines (x # xs) = [] # textLines xs"
  by simp

lemma textLines_Cons_other:
  "\<not> isLineTerminator x \<Longrightarrow>
   textLines (x # xs) = (x # hd (textLines xs)) # tl (textLines xs)"
  using textLines_nonempty [of xs] by (cases "textLines xs") auto

lemma hd_textLines: "hd (textLines s) = takeWhile (\<lambda>x. \<not> isLineTerminator x) s"
  by (induction s)
     (auto simp: textLines_Cons_other textLines_Cons_terminator simp del: textLines.simps(2))

lemma textLines_dropWhile:
  "textLines (dropWhile (\<lambda>x. \<not> isLineTerminator x) s) = [] # tl (textLines s)"
  by (induction s)
     (auto simp: textLines_Cons_other textLines_Cons_terminator simp del: textLines.simps(2))

lemma textLines_append_line:
  "list_all (\<lambda>x. \<not> isLineTerminator x) l \<Longrightarrow>
   textLines (l @ LF # r) = l # textLines r"
  by (induction l)
     (simp_all add: textLines_Cons_other textLines_Cons_terminator isLineTerminator_def
        del: textLines.simps(2))

lemma isLevel1Header_Cons:
  "isLevel1Header (c # l) \<longleftrightarrow> c = CHR ''#'' \<and> l \<noteq> [] \<and> hd l = CHR '' ''"
  by (cases l) (auto simp: isLevel1Header_def numeral_2_eq_2)

lemma space_takeWhile:
  "takeWhile (\<lambda>x. \<not> isLineTerminator x) cs \<noteq> [] \<and>
   hd (takeWhile (\<lambda>x. \<not> isLineTerminator x) cs) = CHR '' '' \<longleftrightarrow>
   cs \<noteq> [] \<and> hd cs = CHR '' ''"
  by (cases cs) (auto simp: isLineTerminator_def)

lemma take2_Cons:
  "take 2 (c # cs) = ''# '' \<longleftrightarrow> c = CHR ''#'' \<and> cs \<noteq> [] \<and> hd cs = CHR '' ''"
  by (cases cs) (auto simp: numeral_2_eq_2)

lemma removeAssemblyHeaders_lines:
  "textLines (removeAssemblyHeaders atStart s) =
     (if atStart then map (\<lambda>l. if isLevel1Header l then [] else l) (textLines s)
      else hd (textLines s) # map (\<lambda>l. if isLevel1Header l then [] else l) (tl (textLines s)))"
proof (induction atStart s rule: removeAssemblyHeaders.induct)
  case (1 atStart)
  then show ?case by (simp add: isLevel1Header_def)
next
  case (2 atStart c cs)
  let ?blank = "\<lambda>l. if isLevel1Header l then [] else l"
  show ?case
  proof (cases "atStart \<and> take 2 (c # cs) = ''# ''")
    case True
    then have "take 2 (c # cs) = ''# ''" by blast
    then have c: "c = CHR ''#''" and sp: "cs \<noteq> [] \<and> hd cs = CHR '' ''"
      unfolding take2_Cons by blast+
    from sp obtain rest where cs: "cs = CHR '' '' # rest" by (cases cs) auto
    let ?d = "dropWhile (\<lambda>x. \<not> isLineTerminator x) rest"
    have nt: "\<not> isLineTerminator (CHR ''#'')" "\<not> isLineTerminator (CHR '' '')"
      by (simp_all add: isLineTerminator_def)
    have lines: "textLines (c # cs) =
        (CHR ''#'' # CHR '' '' # hd (textLines rest)) # tl (textLines rest)"
      using nt by (simp add: c cs textLines_Cons_other del: textLines.simps(2))
    have h: "isLevel1Header (CHR ''#'' # CHR '' '' # hd (textLines rest))"
      by (simp add: isLevel1Header_def)
    have "textLines (removeAssemblyHeaders atStart (c # cs)) =
            textLines (removeAssemblyHeaders False ?d)"
      using True by (simp add: c cs)
    also have "\<dots> = hd (textLines ?d) # map ?blank (tl (textLines ?d))"
      using "2.IH"(1) True by (simp add: c cs)
    also have "\<dots> = [] # map ?blank (tl (textLines rest))"
      by (simp add: textLines_dropWhile)
    finally show ?thesis using True lines h by simp
  next
    case False
    then have r: "removeAssemblyHeaders atStart (c # cs) =
                    c # removeAssemblyHeaders (isLineTerminator c) cs"
      by auto
    have ih: "textLines (removeAssemblyHeaders (isLineTerminator c) cs) =
       (if isLineTerminator c then map ?blank (textLines cs)
        else hd (textLines cs) # map ?blank (tl (textLines cs)))"
      using "2.IH"(2) False by blast
    show ?thesis
    proof (cases "isLineTerminator c")
      case True
      have e: "\<not> isLevel1Header []" by (simp add: isLevel1Header_def)
      from True ih r e show ?thesis
        by (simp add: textLines_Cons_terminator del: textLines.simps(2))
    next
      case nt: False
      have keep: "\<not> isLevel1Header (c # hd (textLines cs))" if "atStart"
      proof
        assume "isLevel1Header (c # hd (textLines cs))"
        then have "c = CHR ''#'' \<and> takeWhile (\<lambda>x. \<not> isLineTerminator x) cs \<noteq> [] \<and>
                   hd (takeWhile (\<lambda>x. \<not> isLineTerminator x) cs) = CHR '' ''"
          unfolding isLevel1Header_Cons hd_textLines .
        then have "c = CHR ''#'' \<and> cs \<noteq> [] \<and> hd cs = CHR '' ''"
          using space_takeWhile [of cs] by blast
        then have "take 2 (c # cs) = ''# ''" unfolding take2_Cons .
        with False that show False by blast
      qed
      from nt ih r keep show ?thesis
        by (simp add: textLines_Cons_other del: textLines.simps(2))
    qed
  qed
qed

lemma removeAssemblyHeaders_terminators:
  "terminatorsOf (removeAssemblyHeaders atStart s) = terminatorsOf s"
proof (induction atStart s rule: removeAssemblyHeaders.induct)
  case (1 atStart)
  then show ?case by simp
next
  case (2 atStart c cs)
  have f: "filter isLineTerminator (dropWhile (\<lambda>x. \<not> isLineTerminator x) xs) =
           filter isLineTerminator xs" for xs
    by (induction xs) auto
  show ?case
  proof (cases "atStart \<and> take 2 (c # cs) = ''# ''")
    case True
    then have "take 2 (c # cs) = ''# ''" by blast
    then have c: "c = CHR ''#''" and sp: "cs \<noteq> [] \<and> hd cs = CHR '' ''"
      unfolding take2_Cons by blast+
    from sp obtain rest where cs: "cs = CHR '' '' # rest" by (cases cs) auto
    have "terminatorsOf (removeAssemblyHeaders atStart (c # cs)) =
            terminatorsOf (dropWhile (\<lambda>x. \<not> isLineTerminator x) rest)"
      using "2.IH"(1) True by (simp add: c cs)
    moreover have "\<not> isLineTerminator (CHR ''#'')" "\<not> isLineTerminator (CHR '' '')"
      by (simp_all add: isLineTerminator_def)
    ultimately show ?thesis using True by (simp add: terminatorsOf_def f c cs)
  next
    case False
    with "2.IH"(2) show ?thesis by (auto simp: terminatorsOf_def)
  qed
qed

lemma buildProjects_concat:
  "buildProjects execSync ev projects acc p = (Inr md, p') \<Longrightarrow>
   \<exists>mds. projectMarkdowns execSync ev projects p = Some mds \<and>
         length mds = length projects \<and> md = acc @ concat mds"
proof (induction projects arbitrary: acc p)
  case Nil
  then show ?case by simp
next
  case (Cons pr projects)
  from Cons.prems obtain m p1 where
    b: "buildProjectMarkdownDocs execSync ev (proj_name pr) (proj_references pr) p = (Inr m, p1)"
    and r: "buildProjects execSync ev projects (acc @ m) p1 = (Inr md, p')"
    by (auto split: prod.splits sum.splits)
  from Cons.IH [OF r] obtain mds where
    "projectMarkdowns execSync ev projects p1 = Some mds" "length mds = length projects"
    "md = (acc @ m) @ concat mds"
    by blast
  with b have "projectMarkdowns execSync ev (pr # projects) p = Some (m # mds) \<and>
               length (m # mds) = length (pr # projects) \<and> md = acc @ concat (m # mds)"
    by simp
  then show ?case by blast
qed

text \<open>
  What the code does to the merged text. When every project is built, the Markdown collected
  by the loop is the concatenation of the Markdown of the projects in the order of the
  project list; in the index, under the new title, every line of that merged text that
  begins with a hash and a space has been emptied, and every other line and every line
  terminator has been kept.
\<close>

lemma index_of_merged_text:
  assumes "buildProjects execSync ev projects [] p = (Inr indexMarkdown, p')"
  shows "\<exists>mds.
           projectMarkdowns execSync ev projects p = Some mds \<and>
           length mds = length projects \<and>
           indexMarkdown = concat mds \<and>
           combinedIndex indexMarkdown =
             indexTitle @ [LF] @ removeAssemblyHeaders True (concat mds) \<and>
           textLines (combinedIndex indexMarkdown) =
             indexTitle # map (\<lambda>l. if isLevel1Header l then [] else l) (textLines (concat mds)) \<and>
           terminatorsOf (combinedIndex indexMarkdown) = LF # terminatorsOf (concat mds) \<and>
           filter isLevel1Header (textLines (combinedIndex indexMarkdown)) = [indexTitle]"
proof -
  from buildProjects_concat [OF assms] obtain mds where
    m: "projectMarkdowns execSync ev projects p = Some mds" "length mds = length projects"
       "indexMarkdown = concat mds"
    by auto
  have t: "list_all (\<lambda>x. \<not> isLineTerminator x) indexTitle"
    by (simp add: indexTitle_def isLineTerminator_def)
  have l: "textLines (combinedIndex indexMarkdown) =
             indexTitle # map (\<lambda>l. if isLevel1Header l then [] else l) (textLines indexMarkdown)"
    using textLines_append_line [OF t] by (simp add: combinedIndex_def removeAssemblyHeaders_lines)
  have tm: "terminatorsOf (combinedIndex indexMarkdown) = LF # terminatorsOf indexMarkdown"
  proof -
    have "filter isLineTerminator indexTitle = []"
      by (simp add: indexTitle_def isLineTerminator_def)
    then show ?thesis
      using removeAssemblyHeaders_terminators [of True indexMarkdown]
      by (simp add: combinedIndex_def terminatorsOf_def isLineTerminator_def)
  qed
  have h: "isLevel1Header indexTitle" by (simp add: indexTitle_def isLevel1Header_def)
  have n: "filter isLevel1Header (map (\<lambda>l. if isLevel1Header l then [] else l) ls) = []" for ls
    by (induction ls) (auto simp: isLevel1Header_def)
  have f: "filter isLevel1Header (textLines (combinedIndex indexMarkdown)) = [indexTitle]"
    unfolding l using h n by simp
  from m l tm f show ?thesis by (simp add: combinedIndex_def)
qed

text \<open>
  C6. The claim is what the comment in the code announces: the assembly headers are removed
  and one new title is put on top. The code departs from it when the Markdown of a project
  does not end with a line terminator: the texts are appended without a separator, so the
  header of the next project does not begin a line of the merged text and the replacement
  of \<open>/^# .*$/gm\<close> leaves it in the index. Here the first project gives \<open>tail\<close> and the
  second gives a header \<open># B\<close> and a line \<open>y\<close>: the run succeeds, and the index that it
  writes (with the front matter that the post-processing then puts before it) has the line
  \<open>tail# B\<close>.
\<close>

theorem assembly_header_kept_after_unterminated_text:
  "fst (generateDocs
          (\<lambda>cmd (tree, fs).
             (Completed,
              Some [(''Microsoft.JavaScript.NodeApi.md'', File ''tail''),
                    (''Microsoft.JavaScript.NodeApi.DotNetHost.md'',
                     File (''# B'' @ [LF] @ ''y'' @ [LF]))],
              [''/out/bin/Release/NodeApi/net6.0/linux-x64/Microsoft.JavaScript.NodeApi.dll'',
               ''/out/bin/Release/NodeApi/net6.0/linux-x64/Microsoft.JavaScript.NodeApi.xml'',
               ''/out/bin/Release/NodeApi.DotNetHost/net6.0/linux-x64/Microsoft.JavaScript.NodeApi.DotNetHost.dll'',
               ''/out/bin/Release/NodeApi.DotNetHost/net6.0/linux-x64/Microsoft.JavaScript.NodeApi.DotNetHost.xml'']))
          (\<lambda>nav. [])
          \<lparr>dirname = ''/d/s'', platform = ''linux'', arch = ''x64''\<rparr>
          \<lparr>outDirTree = None, files = [], stdout = [], stderr = [], written = []\<rparr>) = Inr () \<and>
   map_option (\<lambda>es. map_of es ''index.md'')
     (outDirTree (snd (generateDocs
          (\<lambda>cmd (tree, fs).
             (Completed,
              Some [(''Microsoft.JavaScript.NodeApi.md'', File ''tail''),
                    (''Microsoft.JavaScript.NodeApi.DotNetHost.md'',
                     File (''# B'' @ [LF] @ ''y'' @ [LF]))],
              [''/out/bin/Release/NodeApi/net6.0/linux-x64/Microsoft.JavaScript.NodeApi.dll'',
               ''/out/bin/Release/NodeApi/net6.0/linux-x64/Microsoft.JavaScript.NodeApi.xml'',
               ''/out/bin/Release/NodeApi.DotNetHost/net6.0/linux-x64/Microsoft.JavaScript.NodeApi.DotNetHost.dll'',
               ''/out/bin/Release/NodeApi.DotNetHost/net6.0/linux-x64/Microsoft.JavaScript.NodeApi.DotNetHost.xml'']))
          (\<lambda>nav. [])
          \<lparr>dirname = ''/d/s'', platform = ''linux'', arch = ''x64''\<rparr>
          \<lparr>outDirTree = None, files = [], stdout = [], stderr = [], written = []\<rparr>))) =
     Some (Some (File (frontMatter @
                       ''# .NET API Reference'' @ [LF] @ ''tail# B'' @ [LF] @ ''y'' @ [LF]))) \<and>
   combinedIndex (''tail'' @ ''# B'' @ [LF] @ ''y'' @ [LF]) =
     ''# .NET API Reference'' @ [LF] @ ''tail# B'' @ [LF] @ ''y'' @ [LF] \<and>
   isLevel1Header ''# B''"
  by code_simp

section \<open>Properties of the two scripts\<close>

subsection \<open>The exit status of the .NET script\<close>

lemma dotnetDocsMain_status: "snd (dotnetDocsMain execSync stringify ev p) = 0"
  by (simp add: dotnetDocsMain_def split: prod.splits sum.splits)

text \<open>
  C1. The claim asks for a non-zero exit status on every failure. The script does report
  the error on the error stream, with the status of the failing command in the message, but
  its handler \<open>catch (e) { console.error(e.message || e); }\<close> ends normally and nothing sets
  an exit code (the handler of the JavaScript documentation script calls \<open>process.exit(1)\<close>):
  the status of the process is 0 whatever happens. Here a build command that exits with
  status 1, and a build that succeeds without leaving the assembly, both end with status 0.
\<close>

theorem dotnet_docs_failure_exits_zero:
  "snd (dotnetDocsMain execSync stringify ev p) = 0 \<and>
   stderr (fst (dotnetDocsMain
      (\<lambda>cmd (tree, fs). (Failed (Some 1) ''Command failed'', tree, fs)) (\<lambda>nav. [])
      \<lparr>dirname = ''/d/s'', platform = ''linux'', arch = ''x64''\<rparr>
      \<lparr>outDirTree = None, files = [], stdout = [], stderr = [], written = []\<rparr>)) =
     [Text ''Command executed with status: 1''] \<and>
   snd (dotnetDocsMain
      (\<lambda>cmd (tree, fs). (Failed (Some 1) ''Command failed'', tree, fs)) (\<lambda>nav. [])
      \<lparr>dirname = ''/d/s'', platform = ''linux'', arch = ''x64''\<rparr>
      \<lparr>outDirTree = None, files = [], stdout = [], stderr = [], written = []\<rparr>) = 0 \<and>
   stderr (fst (dotnetDocsMain
      (\<lambda>cmd (tree, fs). (Completed, tree, fs)) (\<lambda>nav. [])
      \<lparr>dirname = ''/d/s'', platform = ''linux'', arch = ''x64''\<rparr>
      \<lparr>outDirTree = None, files = [], stdout = [], stderr = [], written = []\<rparr>)) =
     [Text (''Assembly file was not found at '' @
            ''/out/bin/Release/NodeApi/net6.0/linux-x64/Microsoft.JavaScript.NodeApi.dll'')] \<and>
   snd (dotnetDocsMain
      (\<lambda>cmd (tree, fs). (Completed, tree, fs)) (\<lambda>nav. [])
      \<lparr>dirname = ''/d/s'', platform = ''linux'', arch = ''x64''\<rparr>
      \<lparr>outDirTree = None, files = [], stdout = [], stderr = [], written = []\<rparr>) = 0"
proof -
  have a: "stderr (fst (dotnetDocsMain
      (\<lambda>cmd (tree, fs). (Failed (Some 1) ''Command failed'', tree, fs)) (\<lambda>nav. [])
      \<lparr>dirname = ''/d/s'', platform = ''linux'', arch = ''x64''\<rparr>
      \<lparr>outDirTree = None, files = [], stdout = [], stderr = [], written = []\<rparr>)) =
     [Text ''Command executed with status: 1'']"
    by code_simp
  have b: "stderr (fst (dotnetDocsMain
      (\<lambda>cmd (tree, fs). (Completed, tree, fs)) (\<lambda>nav. [])
      \<lparr>dirname = ''/d/s'', platform = ''linux'', arch = ''x64''\<rparr>
      \<lparr>outDirTree = None, files = [], stdout = [], stderr = [], written = []\<rparr>)) =
     [Text (''Assembly file was not found at '' @
            ''/out/bin/Release/NodeApi/net6.0/linux-x64/Microsoft.JavaScript.NodeApi.dll'')]"
    by code_simp
  from a b show ?thesis by (simp add: dotnetDocsMain_status)
qed

subsection \<open>The failures of the JavaScript script\<close>

lemma messageOrError_Error: "m \<noteq> [] \<Longrightarrow> messageOrError (Error m) = Text m"
  by (simp add: messageOrError_def)

text \<open>
  C8. When the entry-point declaration file does not exist, the script prints
  \<open>File not found:\<close> with the path of the file on the error stream and the process exits
  with status 1; when the file exists and TypeDoc starts but the conversion gives no project,
  it prints \<open>Failed to convert TypeScript to documentation.\<close> and exits with status 1. In
  both cases the script writes no file: the output directory, emptied at the start, holds no
  \<open>index.md\<close>.
\<close>

theorem js_docs_abort:
  "(pathJoin [jsSrcDir ev, ''index.d.ts''] \<notin> set (files p) \<longrightarrow>
      snd (jsDocsMain td parse ev p) = 1 \<and>
      stderr (fst (jsDocsMain td parse ev p)) =
        stderr p @ [Text (''File not found: '' @ pathJoin [jsSrcDir ev, ''index.d.ts''])] \<and>
      written (fst (jsDocsMain td parse ev p)) = written p \<and>
      outDirTree (fst (jsDocsMain td parse ev p)) = Some []) \<and>
   (pathJoin [jsSrcDir ev, ''index.d.ts''] \<in> set (files p) \<and>
    td_bootstrap td (pathJoin [jsSrcDir ev, ''index.d.ts'']) = None \<and>
    td_convert td = Inr None \<longrightarrow>
      snd (jsDocsMain td parse ev p) = 1 \<and>
      stderr (fst (jsDocsMain td parse ev p)) =
        stderr p @ [Text ''Failed to convert TypeScript to documentation.''] \<and>
      written (fst (jsDocsMain td parse ev p)) = written p \<and>
      outDirTree (fst (jsDocsMain td parse ev p)) = Some [])"
  by (simp add: jsDocsMain_def exportJsdocToJson_def resetOutDir_def consoleError_def
      messageOrError_Error Let_def)

text \<open>A run without the declaration file, and a run in which the conversion gives nothing.\<close>

theorem js_docs_abort_witness:
  "jsDocsMain
     \<lparr>td_bootstrap = (\<lambda>entry. None), td_convert = Inr (Some (0::nat)),
      td_generateJson = (\<lambda>proj f tree. Inr tree)\<rparr>
     (\<lambda>json. Inl (Error ''no parse''))
     \<lparr>dirname = ''/d/s'', platform = ''linux'', arch = ''x64''\<rparr>
     \<lparr>outDirTree = Some [(''index.md'', File ''old'')], files = [], stdout = [], stderr = [],
      written = []\<rparr> =
     (\<lparr>outDirTree = Some [], files = [], stdout = [],
       stderr = [Text ''File not found: /src/node-api-dotnet/index.d.ts''], written = []\<rparr>, 1) \<and>
   jsDocsMain
     \<lparr>td_bootstrap = (\<lambda>entry. None), td_convert = Inr (None :: nat option),
      td_generateJson = (\<lambda>proj f tree. Inr tree)\<rparr>
     (\<lambda>json. Inl (Error ''no parse''))
     \<lparr>dirname = ''/d/s'', platform = ''linux'', arch = ''x64''\<rparr>
     \<lparr>outDirTree = None, files = [''/src/node-api-dotnet/index.d.ts''], stdout = [], stderr = [],
      written = []\<rparr> =
     (\<lparr>outDirTree = Some [], files = [''/src/node-api-dotnet/index.d.ts''], stdout = [],
       stderr = [Text ''Failed to convert TypeScript to documentation.''], written = []\<rparr>, 1)"
proof -
  let ?ev = "\<lparr>dirname = ''/d/s'', platform = ''linux'', arch = ''x64''\<rparr>"
  let ?td1 = "\<lparr>td_bootstrap = (\<lambda>entry. None), td_convert = Inr (Some (0::nat)),
      td_generateJson = (\<lambda>proj f tree. Inr tree)\<rparr>"
  let ?td2 = "\<lparr>td_bootstrap = (\<lambda>entry. None), td_convert = Inr (None :: nat option),
      td_generateJson = (\<lambda>proj f tree. Inr tree)\<rparr>"
  let ?parse = "\<lambda>json :: string. Inl (Error ''no parse'') :: error + projectReflection"
  let ?p1 = "\<lparr>outDirTree = Some [(''index.md'', File ''old'')], files = [], stdout = [],
      stderr = [], written = []\<rparr>"
  let ?p2 = "\<lparr>outDirTree = None, files = [''/src/node-api-dotnet/index.d.ts''], stdout = [],
      stderr = [], written = []\<rparr>"
  have path: "pathJoin [jsSrcDir ?ev, ''index.d.ts''] = ''/src/node-api-dotnet/index.d.ts''"
    by code_simp
  have h1: "pathJoin [jsSrcDir ?ev, ''index.d.ts''] \<notin> set (files ?p1)"
    by simp
  have h2: "pathJoin [jsSrcDir ?ev, ''index.d.ts''] \<in> set (files ?p2) \<and>
            td_bootstrap ?td2 (pathJoin [jsSrcDir ?ev, ''index.d.ts'']) = None \<and>
            td_convert ?td2 = Inr None"
    by (simp add: path)
  have s1: "files (fst (jsDocsMain ?td1 ?parse ?ev ?p1)) = [] \<and>
            stdout (fst (jsDocsMain ?td1 ?parse ?ev ?p1)) = []"
    by code_simp
  have s2: "files (fst (jsDocsMain ?td2 ?parse ?ev ?p2)) = [''/src/node-api-dotnet/index.d.ts''] \<and>
            stdout (fst (jsDocsMain ?td2 ?parse ?ev ?p2)) = []"
    by code_simp
  from js_docs_abort [of ?ev ?p1 ?td1 ?parse] h1 have
    r1: "snd (jsDocsMain ?td1 ?parse ?ev ?p1) = 1 \<and>
         stderr (fst (jsDocsMain ?td1 ?parse ?ev ?p1)) =
           [Text ''File not found: /src/node-api-dotnet/index.d.ts''] \<and>
         written (fst (jsDocsMain ?td1 ?parse ?ev ?p1)) = [] \<and>
         outDirTree (fst (jsDocsMain ?td1 ?parse ?ev ?p1)) = Some []"
    by (simp add: path)
  from js_docs_abort [of ?ev ?p2 ?td2 ?parse] h2 have
    r2: "snd (jsDocsMain ?td2 ?parse ?ev ?p2) = 1 \<and>
         stderr (fst (jsDocsMain ?td2 ?parse ?ev ?p2)) =
           [Text ''Failed to convert TypeScript to documentation.''] \<and>
         written (fst (jsDocsMain ?td2 ?parse ?ev ?p2)) = [] \<and>
         outDirTree (fst (jsDocsMain ?td2 ?parse ?ev ?p2)) = Some []"
    by simp
  have e1: "jsDocsMain ?td1 ?parse ?ev ?p1 =
     (\<lparr>outDirTree = Some [], files = [], stdout = [],
       stderr = [Text ''File not found: /src/node-api-dotnet/index.d.ts''], written = []\<rparr>, 1)"
    using r1 s1 by (cases "jsDocsMain ?td1 ?parse ?ev ?p1") (auto intro: proc.equality)
  have e2: "jsDocsMain ?td2 ?parse ?ev ?p2 =
     (\<lparr>outDirTree = Some [], files = [''/src/node-api-dotnet/index.d.ts''], stdout = [],
       stderr = [Text ''Failed to convert TypeScript to documentation.''], written = []\<rparr>, 1)"
    using r2 s2 by (cases "jsDocsMain ?td2 ?parse ?ev ?p2") (auto intro: proc.equality)
  from e1 e2 show ?thesis by blast
qed

subsection \<open>Rendering a type\<close>

text \<open>What \<open>typeToMarkdown\<close> gives for a type that is there: the literal value of a literal
  type; else the name of a type that has a non-empty name; else \<open>unknown\<close> when the type has
  no declaration with exactly one signature.\<close>

lemma typeToMarkdown_present:
  "typeToMarkdown (Some (SomeType ''literal'' v n d)) = Inr (stringifyLiteral v) \<and>
   (t \<noteq> ''literal'' \<and> nm \<noteq> [] \<longrightarrow> typeToMarkdown (Some (SomeType t v (Some nm) d)) = Inr nm) \<and>
   (t \<noteq> ''literal'' \<longrightarrow> typeToMarkdown (Some (SomeType t v None None)) = Inr ''unknown'') \<and>
   (t \<noteq> ''literal'' \<longrightarrow>
      typeToMarkdown (Some (SomeType t v None (Some (Declaration None)))) = Inr ''unknown'') \<and>
   (t \<noteq> ''literal'' \<longrightarrow>
      typeToMarkdown (Some (SomeType t v None (Some (Declaration (Some []))))) = Inr ''unknown'') \<and>
   (t \<noteq> ''literal'' \<longrightarrow>
      typeToMarkdown (Some (SomeType t v None (Some (Declaration (Some (s1 # s2 # ss)))))) =
        Inr ''unknown'')"
  by (cases s1) (simp add: truthy_def orEmpty_def)

text \<open>
  C7. The chain is tried in the order of the claim for a type that is there, but an absent
  type does not reach the last case: the first two tests read \<open>type?.type\<close> and \<open>type?.name\<close>,
  the third reads \<open>type.declaration\<close> without the \<open>?.\<close>, which throws a \<open>TypeError\<close> on
  \<open>undefined\<close>. So \<open>typeToMarkdown(undefined)\<close> throws where the claim has \<open>unknown\<close>; the same
  error ends the rendering of a function type whose one signature has no return type.
\<close>

theorem typeToMarkdown_absent_type_throws:
  "typeToMarkdown None =
     Inl (TypeError ''Cannot read properties of undefined (reading 'declaration')'') \<and>
   typeToMarkdown None \<noteq> Inr ''unknown'' \<and>
   typeToMarkdown
     (Some (SomeType ''reflection'' None None
        (Some (Declaration (Some [Signature (Some []) None None]))))) =
     Inl (TypeError ''Cannot read properties of undefined (reading 'declaration')'') \<and>
   typeToMarkdown
     (Some (SomeType ''reflection'' None None
        (Some (Declaration (Some [Signature
           (Some [Parameter ''a'' (Some (SomeType ''intrinsic'' None (Some ''string'') None)) None])
           (Some (SomeType ''intrinsic'' None (Some ''void'') None)) None]))))) =
     Inr ''(a: string) => void''"
  by (simp add: truthy_def orEmpty_def)

end
